theory Spec2Isabelle
  imports Complex_Main "HOL-Library.Word"
begin

section \<open>Data model of \<^verbatim>\<open>radar_usb.ino\<close>\<close>

text \<open>
  The sketch runs on an ESP32, where \<^verbatim>\<open>unsigned long\<close> and the value of \<^verbatim>\<open>millis()\<close> are
  32-bit unsigned integers: they are \<open>32 word\<close> here, so \<open>+\<close> and \<open>-\<close> wrap as in C.
  The \<^verbatim>\<open>float\<close> globals are modelled as \<open>real\<close>: the properties below rest on
  comparisons with constants and on additions of small integers, which are exact in
  both; the trigonometry of the position fallback is an input.
  Where the sketch distinguishes boards, the \<^verbatim>\<open>ESP32\<close> branch is the one modelled.
  Every call of \<^verbatim>\<open>millis()\<close>, every result of the sensor driver and every result of
  \<^verbatim>\<open>random\<close> is an input of the function that reads it.
\<close>

type_synonym u32 = "32 word"

text \<open>Bytes and lines sent to the sensor over \<^verbatim>\<open>mmWaveSerial\<close>.\<close>

datatype command =
    Frame_reset                 \<comment> \<open>\<^verbatim>\<open>{0x02, 0x01, 0x01, 0x00, 0x04}\<close>\<close>
  | Frame_continuous_mode       \<comment> \<open>\<^verbatim>\<open>{0x02, 0x01, 0x02, 0x01, 0x06}\<close>\<close>
  | Frame_sleep_disable         \<comment> \<open>\<^verbatim>\<open>{0x02, 0x01, 0x03, 0x00, 0x06}\<close>\<close>
  | Frame_always_on             \<comment> \<open>\<^verbatim>\<open>{0x02, 0x01, 0x04, 0x01, 0x08}\<close>\<close>
  | Frame_keep_alive            \<comment> \<open>\<^verbatim>\<open>{0x02, 0x01, 0x05, 0x01, 0x09}\<close>\<close>
  | Frame_position_enable       \<comment> \<open>\<^verbatim>\<open>{0x02, 0x01, 0x06, 0x01, 0x0A}\<close>\<close>
  | Frame_calibrate             \<comment> \<open>\<^verbatim>\<open>{0x02, 0x01, 0x07, 0x01, 0x0B}\<close>\<close>
  | Ascii string                \<comment> \<open>\<^verbatim>\<open>mmWaveSerial.print\<close> / \<^verbatim>\<open>println\<close> of a text command\<close>

text \<open>Operations on the serial link and on the driver object.\<close>

datatype link_op =
    SerialEnd                   \<comment> \<open>\<^verbatim>\<open>mmWaveSerial.end()\<close>\<close>
  | SerialBegin                 \<comment> \<open>\<^verbatim>\<open>mmWaveSerial.begin(115200)\<close>\<close>
  | DriverBegin                 \<comment> \<open>\<^verbatim>\<open>mmWave.begin(&mmWaveSerial, ...)\<close>\<close>
  | SerialDrain                 \<comment> \<open>\<^verbatim>\<open>while (mmWaveSerial.available()) mmWaveSerial.read();\<close>\<close>
  | SerialSend command

text \<open>
  The lines of the debug log that the properties speak about. Each constructor stands for one
  \<^verbatim>\<open>Serial.println\<close>/\<^verbatim>\<open>printf\<close> of the source, named in the comment by its opening words.
\<close>

datatype log_line =
    Reset_limit                 \<comment> \<open>"LIMITE: Maximo de resets por sessao atingido"\<close>
  | Reset_wait                  \<comment> \<open>"AGUARDE: Tempo minimo entre resets nao atingido"\<close>
  | Reset_cancelled             \<comment> \<open>"Reset cancelado por protecao de seguranca"\<close>
  | Reset_authorized            \<comment> \<open>"Reset autorizado - Executando..."\<close>
  | Banner_reset_via_serial     \<comment> \<open>"=== RESET VIA REINICIALIZACAO SERIAL ==="\<close>
  | Banner_reset_system         \<comment> \<open>"=== RESETANDO SISTEMA COMPLETO ==="\<close>
  | Banner_force_reinit         \<comment> \<open>"=== FORCANDO REINICIALIZACAO COMPLETA ==="\<close>
  | Banner_careful_reinit       \<comment> \<open>"=== REINICIALIZACAO CAREFUL DO SENSOR ==="\<close>
  | Banner_reset_position       \<comment> \<open>"=== REINICIALIZANDO COMUNICACAO DE POSICAO ==="\<close>
  | Banner_test_serial          \<comment> \<open>"=== TESTE DE COMUNICACAO SERIAL ==="\<close>
  | Banner_test_all_resets      \<comment> \<open>"=== TESTANDO TODOS OS METODOS DE RESET ==="\<close>
  | Banner_verify_post_reset    \<comment> \<open>"=== VERIFICACAO POS-RESET ==="\<close>
  | Banner_robust_vitals        \<comment> \<open>"=== TENTATIVA ROBUSTA DE DADOS VITAIS ==="\<close>
  | Banner_position_recovery    \<comment> \<open>"=== RECUPERACAO DE POSICAO APOS RESET ==="\<close>
  | Simulated_data real real    \<comment> \<open>"DADOS SIMULADOS - breath: %.1f, heart: %.1f"\<close>
  | Hourly_sleep                \<comment> \<open>"=== DEEP SLEEP HORARIO ==="\<close>
  | Emergency_timeout           \<comment> \<open>"TIMEOUT: Sem dados por 10 minutos"\<close>
  | Woke_hourly                 \<comment> \<open>"Acordou do deep sleep horario (1 minuto)"\<close>
  | Woke_normal                 \<comment> \<open>"Acordou de deep sleep normal - Resetando sistema..."\<close>

datatype event =
    Log log_line
  | Link link_op
  | Telemetry real real real real
      \<comment> \<open>the four lines printed by \<^verbatim>\<open>send_formatted_data\<close>\<close>
  | DeepSleepStart "64 word"
      \<comment> \<open>\<^verbatim>\<open>esp_deep_sleep_start()\<close> after \<^verbatim>\<open>esp_sleep_enable_timer_wakeup(us)\<close>\<close>

text \<open>
  The globals of the sketch and the \<^verbatim>\<open>static\<close> locals of its functions, under the names of
  the source, and \<open>trace\<close>: the link operations, the log lines above and the telemetry
  records, in the order in which the code produced them.
  Left out are the globals that only feed debug print-outs (heap statistics, temperature,
  \<^verbatim>\<open>last_reset_time\<close>, \<^verbatim>\<open>last_memory_check\<close>, the time stamps of the 30-second debug prints).
\<close>

record state =
  \<comment> \<open>sensor data\<close>
  breath_rate :: real
  heart_rate :: real
  distance :: real
  x_position :: real
  y_position :: real
  \<comment> \<open>declared \<^verbatim>\<open>RTC_DATA_ATTR\<close>\<close>
  bootCount :: int
  last_hourly_sleep :: u32
  last_reset_time_rtc :: u32
  \<comment> \<open>plain globals\<close>
  last_heartbeat :: u32
  is_hourly_sleep_mode :: bool
  reset_count_this_session :: u32
  last_data_received :: u32
  last_diagnostic_time :: u32
  consecutive_failures :: u32
  total_loops :: u32
  successful_readings :: u32
  failed_readings :: u32
  last_serial_check :: u32
  serial_available :: bool
  \<comment> \<open>statics of \<^verbatim>\<open>keep_sensor_active\<close> and \<^verbatim>\<open>simulate_vital_signs\<close>\<close>
  last_keep_alive :: u32
  last_simulation :: u32
  sim_breath :: real
  sim_heart :: real
  \<comment> \<open>statics of \<^verbatim>\<open>loop\<close>\<close>
  last_complete_failure_check :: u32
  complete_failure_count :: int
  position_recovery_attempted :: bool
  last_position_recovery :: u32
  recovery_attempts :: int
  last_vitals_failed_debug :: u32
  consecutive_vitals_failed_count :: u32
  last_all_failed_debug :: u32
  consecutive_all_failed_count :: u32
  last_position_fail_debug :: u32
  consecutive_position_failures :: u32
  last_fallback_update :: u32
  fallback_angle :: real
  \<comment> \<open>observable effects\<close>
  trace :: "event list"

definition emit :: "event list \<Rightarrow> state \<Rightarrow> state" where
  "emit es s = s\<lparr>trace := trace s @ es\<rparr>"

subsection \<open>Constants\<close>

definition HOURLY_SLEEP_INTERVAL :: u32 where
  "HOURLY_SLEEP_INTERVAL = 60 * 60 * 1000"

definition DEEP_SLEEP_DURATION :: u32 where
  "DEEP_SLEEP_DURATION = 60 * 1000000"

definition MIN_RESET_INTERVAL :: u32 where
  "MIN_RESET_INTERVAL = 30 * 60 * 1000"

definition MAX_RESETS_PER_SESSION :: u32 where
  "MAX_RESETS_PER_SESSION = 3"

definition RESET_TIMEOUT :: u32 where
  "RESET_TIMEOUT = 10 * 60 * 1000"

definition MAX_CONSECUTIVE_FAILURES :: u32 where
  "MAX_CONSECUTIVE_FAILURES = 20"

section \<open>Interval timer\<close>

text \<open>
  \<^verbatim>\<open>check_timeout_safe\<close> (lines 1547-1560). \<open>current_time\<close> is the value of \<^verbatim>\<open>millis()\<close>.
  \<open>wraparound_total_time\<close> is the local \<^verbatim>\<open>total_time\<close> of the branch taken when
  \<^verbatim>\<open>current_time < last_time\<close>.
\<close>

definition wraparound_total_time :: "u32 \<Rightarrow> u32 \<Rightarrow> u32" where
  "wraparound_total_time current_time last_time =
     (let time_since_overflow = current_time;
          time_before_overflow = 0xFFFFFFFF - last_time
      in time_since_overflow + time_before_overflow)"

definition check_timeout_safe :: "u32 \<Rightarrow> u32 \<Rightarrow> u32 \<Rightarrow> bool" where
  "check_timeout_safe current_time last_time timeout =
     (if current_time < last_time
      then wraparound_total_time current_time last_time > timeout
      else (current_time - last_time) > timeout)"

section \<open>Reset budget\<close>

text \<open>
  \<^verbatim>\<open>is_reset_safe\<close> (lines 1310-1332): the verdict, and the state with the refusal logged.
\<close>

definition is_reset_safe :: "u32 \<Rightarrow> state \<Rightarrow> bool \<times> state" where
  "is_reset_safe current_time s =
     (if reset_count_this_session s \<ge> MAX_RESETS_PER_SESSION
      then (False, emit [Log Reset_limit] s)
      else if current_time - last_reset_time_rtc s < MIN_RESET_INTERVAL
      then (False, emit [Log Reset_wait] s)
      else (True, s))"

text \<open>
  \<^verbatim>\<open>reset_sensor_via_serial\<close> (lines 1350-1395). The five polls of \<^verbatim>\<open>mmWave.update\<close> that
  follow only choose between two log lines and are left out.
\<close>

definition reset_sensor_via_serial :: "state \<Rightarrow> state" where
  "reset_sensor_via_serial s =
     emit [Log Banner_reset_via_serial, Link SerialEnd, Link SerialBegin, Link DriverBegin] s"

text \<open>
  \<^verbatim>\<open>safe_reset_sensor\<close> (lines 1335-1347). \<open>current_time\<close> is the \<^verbatim>\<open>millis()\<close> read by
  \<^verbatim>\<open>is_reset_safe\<close>, \<open>t_mark\<close> the one stored in \<^verbatim>\<open>last_reset_time_rtc\<close>.
\<close>

definition safe_reset_sensor :: "u32 \<Rightarrow> u32 \<Rightarrow> state \<Rightarrow> state" where
  "safe_reset_sensor current_time t_mark s =
     (case is_reset_safe current_time s of
        (False, s1) \<Rightarrow> emit [Log Reset_cancelled] s1
      | (True, s1) \<Rightarrow>
          reset_sensor_via_serial
            ((emit [Log Reset_authorized] s1)
               \<lparr>reset_count_this_session := reset_count_this_session s1 + 1,
                last_reset_time_rtc := t_mark\<rparr>))"

section \<open>Recovery actions\<close>

text \<open>
  Each function appends its link operations and its banner to the trace. Calls of
  \<^verbatim>\<open>mmWave.update\<close> and of the driver's accessors whose results are only printed are left
  out; where a result steers the control flow it is a parameter.
\<close>

text \<open>\<^verbatim>\<open>reset_position_communication\<close> (lines 464-487).\<close>

definition reset_position_communication :: "state \<Rightarrow> state" where
  "reset_position_communication s = emit [Log Banner_reset_position, Link SerialDrain] s"

text \<open>
  \<^verbatim>\<open>reset_radar_tiny_frame\<close> (lines 557-610) and \<^verbatim>\<open>reset_radar_ascii\<close> (lines 613-644); the
  answer that the first one reads back is only printed.
\<close>

definition reset_radar_tiny_frame :: "state \<Rightarrow> state" where
  "reset_radar_tiny_frame s = emit [Link SerialDrain, Link (SerialSend Frame_reset)] s"

definition reset_radar_ascii :: "state \<Rightarrow> state" where
  "reset_radar_ascii s =
     emit [Link SerialDrain, Link (SerialSend (Ascii ''RESET'')),
           Link (SerialSend (Ascii ''RST''))] s"

text \<open>
  \<^verbatim>\<open>test_all_reset_methods\<close> (lines 647-682); \<open>test1\<close> and \<open>test2\<close> are the results of
  \<^verbatim>\<open>mmWave.update(2000)\<close> after the first and the second method.
\<close>

definition test_all_reset_methods :: "bool \<Rightarrow> bool \<Rightarrow> state \<Rightarrow> state" where
  "test_all_reset_methods test1 test2 s =
     (let s1 = reset_radar_tiny_frame (emit [Log Banner_test_all_resets] s)
      in if \<not> test1
         then (let s2 = reset_radar_ascii s1
               in if \<not> test2 then reset_sensor_via_serial s2 else s2)
         else s1)"

text \<open>\<^verbatim>\<open>verify_post_reset_functionality\<close> (lines 685-726): polls and prints only.\<close>

definition verify_post_reset_functionality :: "state \<Rightarrow> state" where
  "verify_post_reset_functionality s = emit [Log Banner_verify_post_reset] s"

text \<open>
  \<^verbatim>\<open>careful_sensor_reinitialization\<close> (lines 729-780); \<open>before_test\<close> is the result of
  its first \<^verbatim>\<open>mmWave.update(2000)\<close>, on which it returns early.
\<close>

definition careful_sensor_reinitialization :: "bool \<Rightarrow> state \<Rightarrow> state" where
  "careful_sensor_reinitialization before_test s =
     (let s1 = emit [Log Banner_careful_reinit, Link SerialDrain] s
      in if before_test then s1
         else emit [Link SerialEnd, Link SerialBegin, Link DriverBegin] s1)"

text \<open>
  \<^verbatim>\<open>configure_sensor_continuous_mode\<close> (lines 823-899),
  \<^verbatim>\<open>configure_sensor_continuous_mode_ascii\<close> (lines 901-947) and
  \<^verbatim>\<open>reconfigure_position_system\<close> (lines 1044-1090).
\<close>

definition configure_sensor_continuous_mode :: "state \<Rightarrow> state" where
  "configure_sensor_continuous_mode s =
     emit [Link SerialDrain, Link (SerialSend Frame_continuous_mode),
           Link (SerialSend Frame_sleep_disable), Link (SerialSend Frame_always_on)] s"

definition configure_sensor_continuous_mode_ascii :: "state \<Rightarrow> state" where
  "configure_sensor_continuous_mode_ascii s =
     emit [Link SerialDrain, Link (SerialSend (Ascii ''CONTINUOUS_MODE=1'')),
           Link (SerialSend (Ascii ''SLEEP_MODE=0'')), Link (SerialSend (Ascii ''ALWAYS_ON=1'')),
           Link (SerialSend (Ascii ''TIMEOUT=0'')),
           Link (SerialSend (Ascii ''CONTINUOUS_DETECTION=1''))] s"

definition reconfigure_position_system :: "state \<Rightarrow> state" where
  "reconfigure_position_system s =
     emit [Link (SerialSend Frame_position_enable), Link (SerialSend Frame_calibrate),
           Link (SerialSend (Ascii ''POSITION_MODE=1'')),
           Link (SerialSend (Ascii ''POSITION_CALIBRATION=1'')),
           Link (SerialSend (Ascii ''TARGET_TRACKING=1''))] s"

text \<open>\<^verbatim>\<open>force_complete_sensor_reinitialization\<close> (lines 1093-1130).\<close>

definition force_complete_sensor_reinitialization :: "state \<Rightarrow> state" where
  "force_complete_sensor_reinitialization s =
     reconfigure_position_system
       (configure_sensor_continuous_mode_ascii
         (configure_sensor_continuous_mode
           (emit [Log Banner_force_reinit, Link SerialEnd, Link SerialBegin,
                  Link DriverBegin] s)))"

text \<open>\<^verbatim>\<open>attempt_position_recovery\<close> (lines 981-1041).\<close>

definition attempt_position_recovery :: "state \<Rightarrow> state" where
  "attempt_position_recovery s =
     reconfigure_position_system (emit [Log Banner_position_recovery, Link SerialDrain] s)"

text \<open>
  \<^verbatim>\<open>keep_sensor_active\<close> (lines 950-978); \<open>t\<close> is the \<^verbatim>\<open>millis()\<close> of the test, \<open>t_mark\<close>
  the one stored.
\<close>

definition keep_sensor_active :: "u32 \<Rightarrow> u32 \<Rightarrow> state \<Rightarrow> state" where
  "keep_sensor_active t t_mark s =
     (if t - last_keep_alive s > 30000
      then (emit [Link (SerialSend Frame_keep_alive),
                  Link (SerialSend (Ascii ''KEEP_ALIVE''))] s)\<lparr>last_keep_alive := t_mark\<rparr>
      else s)"

text \<open>
  \<^verbatim>\<open>test_serial_communication\<close> (lines 1244-1274); the bytes it reads are only printed.
\<close>

definition test_serial_communication :: "state \<Rightarrow> state" where
  "test_serial_communication s =
     emit [Log Banner_test_serial, Link (SerialSend (Ascii ''TEST''))] s"

text \<open>
  \<^verbatim>\<open>check_serial_communication\<close> (lines 204-265); \<open>avail\<close> is the first
  \<^verbatim>\<open>mmWaveSerial.available()\<close>, \<open>response_received\<close> the outcome of the one-second wait.
  \<^verbatim>\<open>perform_system_diagnostic\<close> (lines 1398-1431) prints, calls \<^verbatim>\<open>check_memory_status\<close>
  (heap statistics only) and this function.
\<close>

definition check_serial_communication :: "bool \<Rightarrow> bool \<Rightarrow> state \<Rightarrow> state" where
  "check_serial_communication avail response_received s =
     (let s1 = emit (Link (SerialSend (Ascii ''TEST''))
                     # replicate 10 (Link (SerialSend (Ascii ''PING''))))
                 (s\<lparr>serial_available := avail\<rparr>)
      in if \<not> response_received
         then s1\<lparr>consecutive_failures := consecutive_failures s1 + 1\<rparr>
         else s1\<lparr>consecutive_failures := 0\<rparr>)"

definition perform_system_diagnostic :: "bool \<Rightarrow> bool \<Rightarrow> state \<Rightarrow> state" where
  "perform_system_diagnostic avail response_received s =
     check_serial_communication avail response_received s"

text \<open>
  \<^verbatim>\<open>reset_sensor_system\<close> (lines 1467-1521); \<open>t_data\<close> and \<open>t_heartbeat\<close> are the two
  \<^verbatim>\<open>millis()\<close> it stores.
\<close>

definition reset_sensor_system :: "u32 \<Rightarrow> u32 \<Rightarrow> state \<Rightarrow> state" where
  "reset_sensor_system t_data t_heartbeat s =
     (emit [Log Banner_reset_system, Link SerialEnd, Link SerialBegin, Link SerialDrain,
            Link DriverBegin] s)
       \<lparr>last_data_received := t_data,
        last_heartbeat := t_heartbeat,
        consecutive_failures := 0,
        failed_readings := 0,
        successful_readings := 0\<rparr>"

text \<open>
  \<^verbatim>\<open>enter_deep_sleep\<close> (lines 1524-1544), whose parameter is a \<^verbatim>\<open>uint64_t\<close>, does not
  return: \<^verbatim>\<open>esp_deep_sleep_start()\<close> halts the
  program, which later restarts in \<^verbatim>\<open>setup()\<close>.
\<close>

definition enter_deep_sleep :: "64 word \<Rightarrow> state \<Rightarrow> state" where
  "enter_deep_sleep sleep_time_us s = emit [DeepSleepStart sleep_time_us] s"

section \<open>Vital signs\<close>

text \<open>
  One attempt of \<^verbatim>\<open>get_vital_signs_robust\<close>: the result of \<^verbatim>\<open>mmWave.update(1000)\<close> and of the
  two accessors, \<open>Some v\<close> when the accessor returned true and wrote \<open>v\<close>.
\<close>

record attempt =
  a_update :: bool
  a_breath :: "real option"
  a_heart :: "real option"

definition read_or_zero :: "real option \<Rightarrow> real" where
  "read_or_zero r = (case r of Some v \<Rightarrow> v | None \<Rightarrow> 0)"

text \<open>
  \<^verbatim>\<open>get_vital_signs_robust\<close> (lines 1175-1214): \<open>n\<close> attempts are left, \<open>k\<close> is the number
  of the next one, \<open>b\<close> and \<open>h\<close> are the referenced \<^verbatim>\<open>breath_rate\<close> and \<^verbatim>\<open>heart_rate\<close>.
\<close>

fun robust_attempts :: "(nat \<Rightarrow> attempt) \<Rightarrow> nat \<Rightarrow> nat \<Rightarrow> real \<Rightarrow> real \<Rightarrow> bool \<times> real \<times> real" where
  "robust_attempts drv 0 k b h = (False, b, h)"
| "robust_attempts drv (Suc n) k b h =
     (if a_update (drv k)
      then (let b' = read_or_zero (a_breath (drv k));
                h' = read_or_zero (a_heart (drv k))
            in if b' > 0 \<or> h' > 0 then (True, b', h')
               else robust_attempts drv n (Suc k) b' h')
      else robust_attempts drv n (Suc k) b h)"

definition get_vital_signs_robust :: "(nat \<Rightarrow> attempt) \<Rightarrow> state \<Rightarrow> bool \<times> state" where
  "get_vital_signs_robust drv s =
     (case robust_attempts drv 5 1 (breath_rate s) (heart_rate s) of
        (ok, b, h) \<Rightarrow>
          (ok, (emit [Log Banner_robust_vitals] s)\<lparr>breath_rate := b, heart_rate := h\<rparr>))"

text \<open>
  \<^verbatim>\<open>simulate_vital_signs\<close> (lines 1217-1241), called on the globals \<^verbatim>\<open>breath_rate\<close> and
  \<^verbatim>\<open>heart_rate\<close>. \<open>sim_time\<close> is the \<^verbatim>\<open>millis()\<close> of the test, \<open>sim_rand_breath\<close> and
  \<open>sim_rand_heart\<close> are the results of \<^verbatim>\<open>random(-2, 3)\<close> and \<^verbatim>\<open>random(-5, 6)\<close>,
  \<open>sim_time_mark\<close> is the \<^verbatim>\<open>millis()\<close> stored in \<^verbatim>\<open>last_simulation\<close>.
\<close>

record sim_input =
  sim_time :: u32
  sim_rand_breath :: int
  sim_rand_heart :: int
  sim_time_mark :: u32

definition simulate_vital_signs :: "sim_input \<Rightarrow> state \<Rightarrow> state" where
  "simulate_vital_signs i s =
     (let s1 =
        (if sim_time i - last_simulation s > 5000
         then (let b0 = sim_breath s + of_int (sim_rand_breath i);
                   h0 = sim_heart s + of_int (sim_rand_heart i);
                   b1 = (if b0 < 12 then 12 else b0);
                   b2 = (if b1 > 25 then 25 else b1);
                   h1 = (if h0 < 60 then 60 else h0);
                   h2 = (if h1 > 100 then 100 else h1)
               in s\<lparr>sim_breath := b2, sim_heart := h2, last_simulation := sim_time_mark i\<rparr>)
         else s)
      in emit [Log (Simulated_data (sim_breath s1) (sim_heart s1))]
           (s1\<lparr>breath_rate := sim_breath s1, heart_rate := sim_heart s1\<rparr>))"

text \<open>\<^verbatim>\<open>send_formatted_data\<close> (lines 345-351): four lines, one per argument.\<close>

definition send_formatted_data :: "real \<Rightarrow> real \<Rightarrow> real \<Rightarrow> real \<Rightarrow> state \<Rightarrow> state" where
  "send_formatted_data br hr xp yp s = emit [Telemetry br hr xp yp] s"

section \<open>The supervisory loop\<close>

text \<open>
  \<^verbatim>\<open>loop\<close> (lines 1684-2211) is one long function; it is cut here at its own section
  comments into one definition per block, composed again in \<open>loop\<close> below. The periodic
  blocks that only print (status log, memory, temperature, communication status, quick
  check, inactive-mode check) and the 30-second debug prints are left out: they write no
  variable of the state and send nothing to the sensor.
\<close>

text \<open>Periodic diagnostic (lines 1699-1703) and serial check (lines 1711-1715).\<close>

definition loop_diagnostic :: "u32 \<Rightarrow> u32 \<Rightarrow> bool \<Rightarrow> bool \<Rightarrow> state \<Rightarrow> state" where
  "loop_diagnostic t t_mark avail response_received s =
     (if check_timeout_safe t (last_diagnostic_time s) (5 * 60 * 1000)
      then (perform_system_diagnostic avail response_received s)\<lparr>last_diagnostic_time := t_mark\<rparr>
      else s)"

definition loop_serial_check :: "u32 \<Rightarrow> u32 \<Rightarrow> bool \<Rightarrow> bool \<Rightarrow> state \<Rightarrow> state" where
  "loop_serial_check t t_mark avail response_received s =
     (if check_timeout_safe t (last_serial_check s) (1 * 60 * 1000)
      then (check_serial_communication avail response_received s)\<lparr>last_serial_check := t_mark\<rparr>
      else s)"

text \<open>Check for a completely inoperative sensor (lines 1755-1776).\<close>

definition loop_complete_failure_check :: "u32 \<Rightarrow> u32 \<Rightarrow> state \<Rightarrow> state" where
  "loop_complete_failure_check t t_mark s =
     (if check_timeout_safe t (last_complete_failure_check s) (30 * 1000)
      then (let all_data_zero = (breath_rate s = 0 \<and> heart_rate s = 0 \<and> distance s = 0
                                 \<and> x_position s = 0 \<and> y_position s = 0);
                s1 = (if all_data_zero
                      then (let s2 = s\<lparr>complete_failure_count := complete_failure_count s + 1\<rparr>
                            in if complete_failure_count s2 \<ge> 5
                               then (force_complete_sensor_reinitialization s2)
                                      \<lparr>complete_failure_count := 0\<rparr>
                               else s2)
                      else s\<lparr>complete_failure_count := 0\<rparr>)
            in s1\<lparr>last_complete_failure_check := t_mark\<rparr>)
      else s)"

text \<open>Position recovery after a reset (lines 1781-1812); \<^verbatim>\<open>MAX_RECOVERY_ATTEMPTS\<close> is 3.\<close>

definition loop_position_recovery :: "u32 \<Rightarrow> u32 \<Rightarrow> state \<Rightarrow> state" where
  "loop_position_recovery t t_mark s =
     (if x_position s = 0 \<and> y_position s = 0
      then (if \<not> position_recovery_attempted s
            then (attempt_position_recovery s)
                   \<lparr>position_recovery_attempted := True,
                    recovery_attempts := 1,
                    last_position_recovery := t_mark\<rparr>
            else if t - last_position_recovery s > 60000
            then (let s1 = s\<lparr>recovery_attempts := recovery_attempts s + 1\<rparr>;
                      s2 = (if recovery_attempts s1 \<ge> 3
                            then (force_complete_sensor_reinitialization s1)
                                   \<lparr>recovery_attempts := 0\<rparr>
                            else attempt_position_recovery s1)
                  in s2\<lparr>last_position_recovery := t_mark\<rparr>)
            else s)
      else s\<lparr>position_recovery_attempted := False, recovery_attempts := 0\<rparr>)"

text \<open>
  The time stamps read by \<^verbatim>\<open>safe_reset_sensor()\<close> followed by a guarded
  \<^verbatim>\<open>reset_sensor_system()\<close>: the two \<^verbatim>\<open>millis()\<close> of \<^verbatim>\<open>safe_reset_sensor\<close>, the one of the
  second \<^verbatim>\<open>is_reset_safe()\<close> and the two of \<^verbatim>\<open>reset_sensor_system\<close>.
\<close>

record reset_times =
  rt_check :: u32
  rt_mark :: u32
  rt_check2 :: u32
  rt_data :: u32
  rt_heartbeat :: u32

text \<open>
  Consecutive-failure alert (lines 1842-1857). \<^verbatim>\<open>&&\<close> evaluates \<^verbatim>\<open>is_reset_safe()\<close> only
  when the comparison before it holds.
\<close>

definition loop_consecutive_failures :: "reset_times \<Rightarrow> state \<Rightarrow> state" where
  "loop_consecutive_failures rt s =
     (if consecutive_failures s \<ge> MAX_CONSECUTIVE_FAILURES
      then (let s1 = safe_reset_sensor (rt_check rt) (rt_mark rt) s;
                s2 = (if consecutive_failures s1 \<ge> MAX_CONSECUTIVE_FAILURES * 2
                      then (case is_reset_safe (rt_check2 rt) s1 of
                              (True, s3) \<Rightarrow> reset_sensor_system (rt_data rt) (rt_heartbeat rt) s3
                            | (False, s3) \<Rightarrow> s3)
                      else s1)
            in s2\<lparr>consecutive_failures := 0\<rparr>)
      else s)"

text \<open>Preventive reset after two hours of operation (lines 1859-1878).\<close>

definition loop_operation_time :: "u32 \<Rightarrow> reset_times \<Rightarrow> state \<Rightarrow> state" where
  "loop_operation_time t rt s =
     (let operation_time = t div 1000
      in if operation_time > 7200 \<and> operation_time mod 7200 < 60
         then (let s1 = safe_reset_sensor (rt_check rt) (rt_mark rt) s
               in if consecutive_failures s1 > 0
                  then (case is_reset_safe (rt_check2 rt) s1 of
                          (True, s3) \<Rightarrow> reset_sensor_system (rt_data rt) (rt_heartbeat rt) s3
                        | (False, s3) \<Rightarrow> s3)
                  else s1)
         else s)"

text \<open>Heartbeat (lines 1880-1884).\<close>

definition loop_heartbeat :: "u32 \<Rightarrow> u32 \<Rightarrow> state \<Rightarrow> state" where
  "loop_heartbeat t t_mark s =
     (if check_timeout_safe t (last_heartbeat s) (30 * 1000)
      then s\<lparr>last_heartbeat := t_mark\<rparr>
      else s)"

subsection \<open>The sensing cycle\<close>

text \<open>
  What one sensing cycle (lines 1886-2207) reads from the driver and from the clock.
  An accessor result is \<open>Some v\<close> when the accessor returned true and wrote \<open>v\<close>;
  \<open>position_read\<close> is \<open>Some targets\<close> when \<^verbatim>\<open>getPeopleCountingTartgetInfo\<close> returned true,
  each target given by its \<^verbatim>\<open>x_point\<close> and \<^verbatim>\<open>y_point\<close>.
\<close>

record reading =
  update_ok :: bool               \<comment> \<open>\<^verbatim>\<open>mmWave.update(5000)\<close>\<close>
  t_data :: u32                   \<comment> \<open>stored in \<^verbatim>\<open>last_data_received\<close>\<close>
  breath_read :: "real option"
  heart_read :: "real option"
  distance_read :: "real option"
  t_vitals :: u32                 \<comment> \<open>compared with \<^verbatim>\<open>last_vitals_failed_debug\<close>\<close>
  t_vitals_mark :: u32
  robust_driver :: "nat \<Rightarrow> attempt"
  sim :: sim_input
  t_all_failed :: u32             \<comment> \<open>compared with \<^verbatim>\<open>last_all_failed_debug\<close>\<close>
  t_all_failed_mark :: u32
  test1 :: bool                   \<comment> \<open>inside \<^verbatim>\<open>test_all_reset_methods\<close>\<close>
  test2 :: bool
  test_after_reset :: bool        \<comment> \<open>\<^verbatim>\<open>mmWave.update(3000)\<close> after the soft reset\<close>
  before_test :: bool             \<comment> \<open>inside \<^verbatim>\<open>careful_sensor_reinitialization\<close>\<close>
  position_read :: "(real \<times> real) list option"
  t_position_fail :: u32          \<comment> \<open>compared with \<^verbatim>\<open>last_position_fail_debug\<close>\<close>
  t_position_fail_mark :: u32
  t_fallback :: u32               \<comment> \<open>compared with \<^verbatim>\<open>last_fallback_update\<close>\<close>
  t_fallback_mark :: u32
  libm_cos :: "real \<Rightarrow> real"
  libm_sin :: "real \<Rightarrow> real"
  t_reset_check :: u32            \<comment> \<open>\<^verbatim>\<open>safe_reset_sensor\<close> of the failure branch\<close>
  t_reset_mark :: u32

text \<open>Vital signs failed (lines 1956-1995).\<close>

definition loop_vitals_failed :: "bool \<Rightarrow> reading \<Rightarrow> state \<Rightarrow> state" where
  "loop_vitals_failed vitals_failed r s =
     (if vitals_failed \<and> t_vitals r - last_vitals_failed_debug s > 15000
      then (let s1 = s\<lparr>consecutive_vitals_failed_count := consecutive_vitals_failed_count s + 1,
                        last_vitals_failed_debug := t_vitals_mark r\<rparr>
            in if consecutive_vitals_failed_count s1 \<ge> 2
               then (let s2 =
                       (if distance s1 > 1.5
                        then simulate_vital_signs (sim r) s1
                        else (case get_vital_signs_robust (robust_driver r) s1 of
                                (robust_success, s3) \<Rightarrow>
                                  if \<not> robust_success then simulate_vital_signs (sim r) s3
                                  else s3))
                     in s2\<lparr>consecutive_vitals_failed_count := 0\<rparr>)
               else s1)
      else if \<not> vitals_failed then s\<lparr>consecutive_vitals_failed_count := 0\<rparr>
      else s)"

text \<open>All basic data failed (lines 2008-2059).\<close>

definition loop_all_failed :: "bool \<Rightarrow> reading \<Rightarrow> state \<Rightarrow> state" where
  "loop_all_failed all_data_failed r s =
     (if all_data_failed \<and> t_all_failed r - last_all_failed_debug s > 10000
      then (let s1 = s\<lparr>consecutive_all_failed_count := consecutive_all_failed_count s + 1,
                        last_all_failed_debug := t_all_failed_mark r\<rparr>;
                s2 = (if consecutive_all_failed_count s1 = 3
                      then test_serial_communication s1 else s1);
                s3 = (if consecutive_all_failed_count s2 = 4
                      then test_all_reset_methods (test1 r) (test2 r) s2 else s2)
            in if consecutive_all_failed_count s3 \<ge> 5
               then (let s4 = reset_position_communication s3;
                         s5 = (if \<not> test_after_reset r
                               then careful_sensor_reinitialization (before_test r) s4
                               else s4);
                         s6 = verify_post_reset_functionality s5
                     in s6\<lparr>consecutive_all_failed_count := 0\<rparr>)
               else s3)
      else if \<not> all_data_failed then s\<lparr>consecutive_all_failed_count := 0\<rparr>
      else s)"

text \<open>
  Native position (lines 2063-2135). The \<^verbatim>\<open>consecutive_position_failures\<close> reset on line
  2100 is a different \<^verbatim>\<open>static\<close>, declared in that inner block: the counter of the failure
  branch is the one of line 2121.
\<close>

definition loop_position :: "reading \<Rightarrow> state \<Rightarrow> state" where
  "loop_position r s =
     (case position_read r of
        Some targets \<Rightarrow>
          (case targets of
             target # _ \<Rightarrow> s\<lparr>x_position := fst target, y_position := snd target\<rparr>
           | [] \<Rightarrow> s\<lparr>x_position := 0, y_position := 0\<rparr>)
      | None \<Rightarrow>
          (let s1 = s\<lparr>x_position := 0, y_position := 0\<rparr>
           in if t_position_fail r - last_position_fail_debug s1 > 60000
              then (let s2 = s1\<lparr>consecutive_position_failures :=
                                   consecutive_position_failures s1 + 1,
                                 last_position_fail_debug := t_position_fail_mark r\<rparr>
                    in if consecutive_position_failures s2 \<ge> 3
                       then (reset_position_communication s2)
                              \<lparr>consecutive_position_failures := 0\<rparr>
                       else s2)
              else s1))"

text \<open>
  Position fallback computed from the distance (lines 2137-2157). The C library's \<^verbatim>\<open>cos\<close>
  and \<^verbatim>\<open>sin\<close> are inputs (\<open>libm_cos\<close>, \<open>libm_sin\<close>); \<open>PI\<close> is the macro of the Arduino
  core.
\<close>

definition PI :: real where
  "PI = 3.1415926535897932384626433832795"

definition loop_fallback :: "reading \<Rightarrow> state \<Rightarrow> state" where
  "loop_fallback r s =
     (if x_position s = 0 \<and> y_position s = 0 \<and> distance s > 0
      then (if t_fallback r - last_fallback_update s > 2000
            then (let a0 = fallback_angle s + 15;
                      a1 = (if a0 \<ge> 360 then 0 else a0);
                      angle_rad = a1 * PI / 180
                  in s\<lparr>fallback_angle := a1,
                       last_fallback_update := t_fallback_mark r,
                       x_position := distance s * libm_cos r angle_rad,
                       y_position := distance s * libm_sin r angle_rad\<rparr>)
            else s)
      else s)"

text \<open>The branch of a successful \<^verbatim>\<open>mmWave.update(5000)\<close> (lines 1892-2183).\<close>

definition loop_read_success :: "reading \<Rightarrow> state \<Rightarrow> state" where
  "loop_read_success r s =
     (let s1 = s\<lparr>successful_readings := successful_readings s + 1,
                  consecutive_failures := 0,
                  last_data_received := t_data r\<rparr>;
          s2 = s1\<lparr>breath_rate := read_or_zero (breath_read r),
                   heart_rate := read_or_zero (heart_read r),
                   distance := read_or_zero (distance_read r),
                   x_position := 0,
                   y_position := 0\<rparr>;
          vitals_failed = (breath_rate s2 = 0 \<and> heart_rate s2 = 0);
          all_data_failed = (breath_rate s2 = 0 \<and> heart_rate s2 = 0 \<and> distance s2 = 0);
          s3 = loop_vitals_failed vitals_failed r s2;
          s4 = loop_all_failed all_data_failed r s3;
          s5 = loop_position r s4;
          s6 = loop_fallback r s5
      in send_formatted_data (breath_rate s6) (heart_rate s6) (x_position s6) (y_position s6) s6)"

text \<open>The branch of a failed \<^verbatim>\<open>mmWave.update(5000)\<close> (lines 2184-2207).\<close>

definition loop_read_failure :: "reading \<Rightarrow> state \<Rightarrow> state" where
  "loop_read_failure r s =
     (let s1 = s\<lparr>failed_readings := failed_readings s + 1,
                  consecutive_failures := consecutive_failures s + 1\<rparr>
      in if consecutive_failures s1 \<ge> 10
         then (let s2 = test_serial_communication s1
               in if consecutive_failures s2 \<ge> 15
                  then (safe_reset_sensor (t_reset_check r) (t_reset_mark r) s2)
                         \<lparr>consecutive_failures := 0\<rparr>
                  else s2)
         else s1)"

definition loop_sensor_read :: "reading \<Rightarrow> state \<Rightarrow> state" where
  "loop_sensor_read r s =
     (if update_ok r then loop_read_success r s else loop_read_failure r s)"

text \<open>A sequence of sensing cycles, the oldest first.\<close>

fun sensing_cycles :: "reading list \<Rightarrow> state \<Rightarrow> state" where
  "sensing_cycles [] s = s"
| "sensing_cycles (r # rs) s = sensing_cycles rs (loop_sensor_read r s)"

subsection \<open>One iteration\<close>

record loop_input =
  t_diag :: u32
  t_diag_mark :: u32
  diag_avail :: bool
  diag_response :: bool
  t_serial :: u32
  t_serial_mark :: u32
  serial_avail :: bool
  serial_response :: bool
  t_complete :: u32
  t_complete_mark :: u32
  t_keep_alive :: u32
  t_keep_alive_mark :: u32
  t_recovery :: u32
  t_recovery_mark :: u32
  t_hourly :: u32                 \<comment> \<open>\<^verbatim>\<open>millis()\<close> of the hourly test\<close>
  t_hourly_mark :: u32            \<comment> \<open>stored in \<^verbatim>\<open>last_hourly_sleep\<close>\<close>
  t_timeout :: u32                \<comment> \<open>\<^verbatim>\<open>millis()\<close> of the timeout test\<close>
  alert_times :: reset_times
  t_operation :: u32
  preventive_times :: reset_times
  t_heartbeat :: u32
  t_heartbeat_mark :: u32
  sensing :: reading

text \<open>
  How an iteration ends: it returns, or it halts in \<^verbatim>\<open>enter_deep_sleep\<close> from the hourly
  block (lines 1814-1831) or from the timeout block (lines 1833-1840).
\<close>

datatype loop_result =
    Active state
  | ScheduledSuspend state
  | EmergencySuspend state

definition loop_before_sleep :: "loop_input \<Rightarrow> state \<Rightarrow> state" where
  "loop_before_sleep i s =
     loop_position_recovery (t_recovery i) (t_recovery_mark i)
       (keep_sensor_active (t_keep_alive i) (t_keep_alive_mark i)
         (loop_complete_failure_check (t_complete i) (t_complete_mark i)
           (loop_serial_check (t_serial i) (t_serial_mark i) (serial_avail i) (serial_response i)
             (loop_diagnostic (t_diag i) (t_diag_mark i) (diag_avail i) (diag_response i)
               (s\<lparr>total_loops := total_loops s + 1\<rparr>)))))"

definition loop_after_sleep :: "loop_input \<Rightarrow> state \<Rightarrow> state" where
  "loop_after_sleep i s =
     loop_sensor_read (sensing i)
       (loop_heartbeat (t_heartbeat i) (t_heartbeat_mark i)
         (loop_operation_time (t_operation i) (preventive_times i)
           (loop_consecutive_failures (alert_times i) s)))"

definition loop :: "loop_input \<Rightarrow> state \<Rightarrow> loop_result" where
  "loop i s =
     (let s1 = loop_before_sleep i s
      in if check_timeout_safe (t_hourly i) (last_hourly_sleep s1) HOURLY_SLEEP_INTERVAL
         then ScheduledSuspend
                (enter_deep_sleep (ucast DEEP_SLEEP_DURATION)
                  ((emit [Log Hourly_sleep] s1)
                     \<lparr>is_hourly_sleep_mode := True,
                      last_hourly_sleep := t_hourly_mark i\<rparr>))
         else if check_timeout_safe (t_timeout i) (last_data_received s1) RESET_TIMEOUT
         then EmergencySuspend
                (enter_deep_sleep (ucast DEEP_SLEEP_DURATION) (emit [Log Emergency_timeout] s1))
         else Active (loop_after_sleep i s1))"

section \<open>Start-up and deep sleep\<close>

text \<open>The initialisers of the globals and statics, as at power-on.\<close>

definition power_on :: state where
  "power_on =
     \<lparr>breath_rate = 0, heart_rate = 0, distance = 0, x_position = 0, y_position = 0,
      bootCount = 0, last_hourly_sleep = 0, last_reset_time_rtc = 0,
      last_heartbeat = 0, is_hourly_sleep_mode = False, reset_count_this_session = 0,
      last_data_received = 0, last_diagnostic_time = 0, consecutive_failures = 0,
      total_loops = 0, successful_readings = 0, failed_readings = 0,
      last_serial_check = 0, serial_available = True,
      last_keep_alive = 0, last_simulation = 0, sim_breath = 16, sim_heart = 70,
      last_complete_failure_check = 0, complete_failure_count = 0,
      position_recovery_attempted = False, last_position_recovery = 0, recovery_attempts = 0,
      last_vitals_failed_debug = 0, consecutive_vitals_failed_count = 0,
      last_all_failed_debug = 0, consecutive_all_failed_count = 0,
      last_position_fail_debug = 0, consecutive_position_failures = 0,
      last_fallback_update = 0, fallback_angle = 0,
      trace = []\<rparr>"

text \<open>
  Modelled from the spec: the platform's suspend primitive, which is not code of the
  sketch. Section 6 of the specification: execution resumes at program entry, and only
  the variables declared to be retained keep their value. In the source these are the
  three variables declared \<^verbatim>\<open>RTC_DATA_ATTR\<close> (lines 40, 43 and 49); every other global and
  static is initialised again. The trace is kept, as the record of what was observed.
\<close>

definition wake_from_deep_sleep :: "state \<Rightarrow> state" where
  "wake_from_deep_sleep s =
     power_on\<lparr>bootCount := bootCount s,
              last_hourly_sleep := last_hourly_sleep s,
              last_reset_time_rtc := last_reset_time_rtc s,
              trace := trace s\<rparr>"

text \<open>
  \<^verbatim>\<open>setup()\<close> (lines 1581-1681), named \<open>setup_fn\<close> here. \<open>woke\<close> says that \<^verbatim>\<open>esp_sleep_get_wakeup_cause()\<close> is not
  \<^verbatim>\<open>ESP_SLEEP_WAKEUP_UNDEFINED\<close>; \<open>test_after_config\<close> is the \<^verbatim>\<open>mmWave.update(2000)\<close> after
  the first configuration.
\<close>

record setup_input =
  woke :: bool
  t_init_data :: u32
  t_init_heartbeat :: u32
  t_init_diag :: u32
  t_init_serial :: u32
  t_sys_data :: u32
  t_sys_heartbeat :: u32
  test_after_config :: bool

definition setup_fn :: "setup_input \<Rightarrow> state \<Rightarrow> state" where
  "setup_fn i s =
     (let s1 = s\<lparr>bootCount := bootCount s + 1\<rparr>;
          s2 = emit [Link SerialBegin, Link DriverBegin] s1;
          s3 = s2\<lparr>last_data_received := t_init_data i,
                   last_heartbeat := t_init_heartbeat i,
                   last_diagnostic_time := t_init_diag i,
                   last_serial_check := t_init_serial i\<rparr>;
          s4 = (if woke i
                then (if is_hourly_sleep_mode s3
                      then reset_sensor_system (t_sys_data i) (t_sys_heartbeat i)
                             ((emit [Log Woke_hourly] s3)\<lparr>is_hourly_sleep_mode := False\<rparr>)
                      else reset_sensor_system (t_sys_data i) (t_sys_heartbeat i)
                             (emit [Log Woke_normal] s3))
                else s3);
          s5 = configure_sensor_continuous_mode s4
      in if \<not> test_after_config i then configure_sensor_continuous_mode_ascii s5 else s5)"

text \<open>
  The Arduino core calls \<^verbatim>\<open>loop()\<close> again and again; a run ends when an iteration halts
  in deep sleep.
\<close>

fun run_loop :: "loop_input list \<Rightarrow> state \<Rightarrow> loop_result" where
  "run_loop [] s = Active s"
| "run_loop (i # is) s =
     (case loop i s of
        Active s' \<Rightarrow> run_loop is s'
      | ScheduledSuspend s' \<Rightarrow> ScheduledSuspend s'
      | EmergencySuspend s' \<Rightarrow> EmergencySuspend s')"

section \<open>Vocabulary of the properties\<close>

text \<open>The events that a computation from \<open>s\<close> to \<open>s'\<close> appended to the trace.\<close>

definition emitted :: "state \<Rightarrow> state \<Rightarrow> event list" where
  "emitted s s' = drop (length (trace s)) (trace s')"

text \<open>
  A reset-class action (tiers 2 and 3 of the specification) closes and reopens the serial
  link and starts the driver again.
\<close>

definition reset_class :: "event \<Rightarrow> bool" where
  "reset_class e \<longleftrightarrow> e = Link SerialEnd \<or> e = Link SerialBegin \<or> e = Link DriverBegin"

text \<open>The length of the unbroken run of failed driver updates that ends a sequence of cycles.\<close>

definition failure_run :: "reading list \<Rightarrow> nat" where
  "failure_run rs = length (takeWhile (\<lambda>r. \<not> update_ok r) (rev rs))"

text \<open>The working range that \<^verbatim>\<open>simulate_vital_signs\<close> keeps its two statics in.\<close>

definition sim_in_range :: "state \<Rightarrow> bool" where
  "sim_in_range s \<longleftrightarrow>
     12 \<le> sim_breath s \<and> sim_breath s \<le> 25 \<and> 60 \<le> sim_heart s \<and> sim_heart s \<le> 100"

text \<open>The line with which \<^verbatim>\<open>is_reset_safe\<close> explains a refusal.\<close>

definition denial_reason :: "state \<Rightarrow> log_line" where
  "denial_reason s =
     (if reset_count_this_session s \<ge> MAX_RESETS_PER_SESSION then Reset_limit else Reset_wait)"

section \<open>Concrete scenarios\<close>

text \<open>
  Inputs for the examples. \<open>quiet_reading t\<close> is a cycle that starts at tick \<open>t\<close> with a
  sensor that does not answer: the update fails and every accessor returns false.
  \<open>quiet_input t\<close> is a whole iteration of that kind, its clock readings in program order.
\<close>

definition no_answer :: "nat \<Rightarrow> attempt" where
  "no_answer k = \<lparr>a_update = False, a_breath = None, a_heart = None\<rparr>"

definition quiet_reading :: "u32 \<Rightarrow> reading" where
  "quiet_reading t =
     \<lparr>update_ok = False, t_data = t + 5000,
      breath_read = None, heart_read = None, distance_read = None,
      t_vitals = t + 5001, t_vitals_mark = t + 5002,
      robust_driver = no_answer,
      sim = \<lparr>sim_time = t + 5003, sim_rand_breath = 0, sim_rand_heart = 0,
             sim_time_mark = t + 5004\<rparr>,
      t_all_failed = t + 5005, t_all_failed_mark = t + 5006,
      test1 = False, test2 = False, test_after_reset = False, before_test = False,
      position_read = None,
      t_position_fail = t + 5007, t_position_fail_mark = t + 5008,
      t_fallback = t + 5009, t_fallback_mark = t + 5010,
      libm_cos = (\<lambda>a. 1), libm_sin = (\<lambda>a. 0),
      t_reset_check = t + 5011, t_reset_mark = t + 5012\<rparr>"

definition quiet_input :: "u32 \<Rightarrow> loop_input" where
  "quiet_input t =
     \<lparr>t_diag = t, t_diag_mark = t + 1600, diag_avail = False, diag_response = False,
      t_serial = t + 1601, t_serial_mark = t + 3200,
      serial_avail = False, serial_response = False,
      t_complete = t + 3201, t_complete_mark = t + 3202,
      t_keep_alive = t + 3203, t_keep_alive_mark = t + 3204,
      t_recovery = t + 3205, t_recovery_mark = t + 3206,
      t_hourly = t + 3207, t_hourly_mark = t + 3208,
      t_timeout = t + 3209,
      alert_times = \<lparr>rt_check = t + 3210, rt_mark = t + 3211, rt_check2 = t + 3212,
                     rt_data = t + 3213, rt_heartbeat = t + 3214\<rparr>,
      t_operation = t + 3215,
      preventive_times = \<lparr>rt_check = t + 3216, rt_mark = t + 3217, rt_check2 = t + 3218,
                          rt_data = t + 3219, rt_heartbeat = t + 3220\<rparr>,
      t_heartbeat = t + 3221, t_heartbeat_mark = t + 3222,
      sensing = quiet_reading (t + 3223)\<rparr>"

text \<open>\<open>n\<close> such cycles in a row, 5.5 seconds apart, from tick \<open>t\<close> on.\<close>

fun quiet_cycles :: "nat \<Rightarrow> u32 \<Rightarrow> reading list" where
  "quiet_cycles 0 t = []"
| "quiet_cycles (Suc n) t = quiet_reading t # quiet_cycles n (t + 5500)"

text \<open>
  \<open>blank_reading t\<close>: the update succeeds but every accessor returns false, and the
  update that follows a soft reset succeeds. \<open>far_reading t\<close>: as before, but the distance
  is read as 2 m.
\<close>

definition blank_reading :: "u32 \<Rightarrow> reading" where
  "blank_reading t = (quiet_reading t)\<lparr>update_ok := True, test_after_reset := True\<rparr>"

definition far_reading :: "u32 \<Rightarrow> reading" where
  "far_reading t = (blank_reading t)\<lparr>distance_read := Some 2\<rparr>"

fun blank_cycles :: "nat \<Rightarrow> u32 \<Rightarrow> reading list" where
  "blank_cycles 0 t = []"
| "blank_cycles (Suc n) t = blank_reading t # blank_cycles n (t + 11000)"

text \<open>The first start after power-on, and a start after a wake-up from deep sleep.\<close>

definition first_boot :: setup_input where
  "first_boot =
     \<lparr>woke = False, t_init_data = 4000, t_init_heartbeat = 4000, t_init_diag = 4000,
      t_init_serial = 4000, t_sys_data = 10100, t_sys_heartbeat = 10100,
      test_after_config = False\<rparr>"

definition wake_boot :: setup_input where
  "wake_boot = first_boot\<lparr>woke := True\<rparr>"

section \<open>Properties\<close>

subsection \<open>Interval timer\<close>

lemma wraparound_total_time_eq:
  "wraparound_total_time now mark = now - mark - 1"
  unfolding wraparound_total_time_def Let_def by simp

lemma wraparound_total_time_unat:
  assumes "now < mark"
  shows "unat (wraparound_total_time now mark) + 1 = unat (now - mark)"
proof -
  from assms have ne: "now - mark \<noteq> 0" by auto
  then have pos: "0 < unat (now - mark)" by (simp add: unat_gt_0)
  have "unat (now - mark - 1) = unat (now - mark) - 1"
    using ne by (rule unat_minus_one)
  with pos show ?thesis by (simp add: wraparound_total_time_eq)
qed

text \<open>
  C2. Whenever \<^verbatim>\<open>millis()\<close> is below the mark, the \<^verbatim>\<open>total_time\<close> of the wraparound
  branch is one tick less than the wrapped distance \<open>(now - mark) mod 2^32\<close>, so that a
  timeout one tick below the true elapsed time is reported as not yet exceeded. With
  \<^verbatim>\<open>millis() = 0\<close> and a mark of \<^verbatim>\<open>0xFFFFFFFF\<close> one tick has passed and the branch
  computes 0.
\<close>

theorem wraparound_one_tick_short:
  assumes "now < mark"
  shows "unat (wraparound_total_time now mark) + 1 = unat (now - mark)
         \<and> \<not> check_timeout_safe now mark (now - mark - 1)"
  using assms wraparound_total_time_unat [OF assms]
  by (simp add: check_timeout_safe_def wraparound_total_time_eq)

theorem wraparound_one_tick_short_witness:
  "(0::u32) < 0xFFFFFFFF
   \<and> wraparound_total_time 0 0xFFFFFFFF = 0
   \<and> unat ((0::u32) - 0xFFFFFFFF) = 1
   \<and> \<not> check_timeout_safe 0 0xFFFFFFFF 0"
  using wraparound_one_tick_short [of 0 "0xFFFFFFFF"]
  by (simp add: wraparound_total_time_def check_timeout_safe_def)

lemma wrap_branch_iff:
  assumes "now < mark"
  shows "check_timeout_safe now mark period \<longleftrightarrow> unat period + 1 < unat (now - mark)"
proof -
  have "check_timeout_safe now mark period
        \<longleftrightarrow> unat period < unat (wraparound_total_time now mark)"
    using assms by (simp add: check_timeout_safe_def word_less_nat_alt)
  also have "\<dots> \<longleftrightarrow> unat period + 1 < unat (now - mark)"
    using wraparound_total_time_unat [OF assms] by linarith
  finally show ?thesis .
qed

lemma nowrap_branch_iff:
  assumes "mark \<le> now"
  shows "check_timeout_safe now mark period \<longleftrightarrow> unat period < unat (now - mark)"
proof -
  from assms have "\<not> now < mark" by simp
  then have "check_timeout_safe now mark period \<longleftrightarrow> period < now - mark"
    by (simp add: check_timeout_safe_def)
  then show ?thesis by (simp add: word_less_nat_alt)
qed

text \<open>
  C8, as stated: the check would hold when the elapsed time equals the period. Ten ticks
  after the mark a period of ten is not yet reported as due.
\<close>

theorem check_timeout_safe_equal_counterexample:
  "unat (10::u32) \<le> unat ((10::u32) - 0) \<and> \<not> check_timeout_safe 10 0 10"
  by (simp add: check_timeout_safe_def)

text \<open>
  C8, amended: \<^verbatim>\<open>check_timeout_safe\<close> compares strictly. It returns true only if the wrapped
  elapsed time \<open>(now - mark) mod 2^32\<close> is greater than the period, and always when it
  is greater by more than one tick; when \<open>mark \<le> now\<close> it returns true exactly when the
  elapsed time is greater than the period.
\<close>

theorem check_timeout_safe_strict:
  "(check_timeout_safe now mark period \<longrightarrow> unat period < unat (now - mark))
   \<and> (unat period + 1 < unat (now - mark) \<longrightarrow> check_timeout_safe now mark period)
   \<and> (mark \<le> now \<longrightarrow> check_timeout_safe now mark period = (unat period < unat (now - mark)))"
proof (cases "now < mark")
  case True
  then show ?thesis using wrap_branch_iff [OF True, of period] by auto
next
  case False
  then have "mark \<le> now" by simp
  then show ?thesis using nowrap_branch_iff [of mark now period] by auto
qed

theorem check_timeout_safe_strict_witness:
  "check_timeout_safe 12 0 10 \<and> unat (10::u32) + 1 < unat ((12::u32) - 0) \<and> (0::u32) \<le> 12
   \<and> check_timeout_safe 12 0 10 = (unat (10::u32) < unat ((12::u32) - 0))"
  using check_timeout_safe_strict [of 12 0 10] by simp

subsection \<open>Reset budget\<close>

lemma emitted_append: "trace s' = trace s @ es \<Longrightarrow> emitted s s' = es"
  by (simp add: emitted_def)

lemma not_reset_class [simp]:
  "\<not> reset_class (Log l)"
  "\<not> reset_class (Link SerialDrain)"
  "\<not> reset_class (Link (SerialSend c))"
  "\<not> reset_class (Telemetry b h x y)"
  "\<not> reset_class (DeepSleepStart n)"
  by (simp_all add: reset_class_def)

lemma is_reset_safe_fst:
  "fst (is_reset_safe now s) \<longleftrightarrow>
     unat (reset_count_this_session s) < 3 \<and> 1800000 \<le> unat (now - last_reset_time_rtc s)"
  by (simp add: is_reset_safe_def MAX_RESETS_PER_SESSION_def MIN_RESET_INTERVAL_def
      word_le_nat_alt word_less_nat_alt not_le not_less)

lemma is_reset_safe_denied:
  assumes "\<not> fst (is_reset_safe now s)"
  shows "is_reset_safe now s = (False, s\<lparr>trace := trace s @ [Log (denial_reason s)]\<rparr>)"
  using assms by (simp add: is_reset_safe_def emit_def denial_reason_def split: if_splits)

lemma is_reset_safe_granted:
  assumes "fst (is_reset_safe now s)"
  shows "is_reset_safe now s = (True, s)"
  using assms by (simp add: is_reset_safe_def split: if_splits)

lemma safe_reset_sensor_authorized:
  assumes "fst (is_reset_safe now s)"
  shows "safe_reset_sensor now t_mark s =
          reset_sensor_via_serial
            (s\<lparr>trace := trace s @ [Log Reset_authorized],
               reset_count_this_session := reset_count_this_session s + 1,
               last_reset_time_rtc := t_mark\<rparr>)"
  by (simp add: safe_reset_sensor_def is_reset_safe_granted [OF assms] emit_def)

lemma safe_reset_sensor_denied:
  assumes "\<not> fst (is_reset_safe now s)"
  shows "safe_reset_sensor now t_mark s =
          s\<lparr>trace := trace s @ [Log (denial_reason s), Log Reset_cancelled]\<rparr>"
  by (simp add: safe_reset_sensor_def is_reset_safe_denied [OF assms] emit_def)

text \<open>
  C9. \<^verbatim>\<open>safe_reset_sensor\<close> restarts the link only if fewer than
  \<^verbatim>\<open>MAX_RESETS_PER_SESSION\<close> (3) resets were counted and at least \<^verbatim>\<open>MIN_RESET_INTERVAL\<close>
  (1800000 ms) have elapsed since \<^verbatim>\<open>last_reset_time_rtc\<close>. When it is authorised, the
  device action \<^verbatim>\<open>reset_sensor_via_serial\<close> runs on the state in which the count is already
  incremented and the mark already set to the tick just read; when it is denied, neither
  field changes.
\<close>

theorem safe_reset_sensor_budget:
  "(list_ex reset_class (emitted s (safe_reset_sensor now t_mark s))
      \<longrightarrow> unat (reset_count_this_session s) < 3
          \<and> 1800000 \<le> unat (now - last_reset_time_rtc s))
   \<and> (unat (reset_count_this_session s) < 3 \<and> 1800000 \<le> unat (now - last_reset_time_rtc s)
      \<longrightarrow> safe_reset_sensor now t_mark s =
            reset_sensor_via_serial
              (s\<lparr>trace := trace s @ [Log Reset_authorized],
                 reset_count_this_session := reset_count_this_session s + 1,
                 last_reset_time_rtc := t_mark\<rparr>)
          \<and> reset_count_this_session (safe_reset_sensor now t_mark s)
              = reset_count_this_session s + 1
          \<and> last_reset_time_rtc (safe_reset_sensor now t_mark s) = t_mark)
   \<and> (\<not> (unat (reset_count_this_session s) < 3
          \<and> 1800000 \<le> unat (now - last_reset_time_rtc s))
      \<longrightarrow> reset_count_this_session (safe_reset_sensor now t_mark s)
            = reset_count_this_session s
          \<and> last_reset_time_rtc (safe_reset_sensor now t_mark s) = last_reset_time_rtc s)"
proof (cases "fst (is_reset_safe now s)")
  case True
  then have ok: "unat (reset_count_this_session s) < 3
                 \<and> 1800000 \<le> unat (now - last_reset_time_rtc s)"
    by (simp add: is_reset_safe_fst)
  show ?thesis
    using ok
    by (simp add: safe_reset_sensor_authorized [OF True] reset_sensor_via_serial_def emit_def)
next
  case False
  then have no: "\<not> (unat (reset_count_this_session s) < 3
                     \<and> 1800000 \<le> unat (now - last_reset_time_rtc s))"
    by (simp add: is_reset_safe_fst)
  have "emitted s (safe_reset_sensor now t_mark s) = [Log (denial_reason s), Log Reset_cancelled]"
    by (rule emitted_append) (simp add: safe_reset_sensor_denied [OF False])
  then show ?thesis
    using no by (simp add: safe_reset_sensor_denied [OF False])
qed

theorem safe_reset_sensor_budget_witness:
  "list_ex reset_class (emitted power_on (safe_reset_sensor 1800000 1800001 power_on))
   \<and> unat (reset_count_this_session power_on) < 3
   \<and> 1800000 \<le> unat (1800000 - last_reset_time_rtc power_on)
   \<and> reset_count_this_session (safe_reset_sensor 1800000 1800001 power_on) = 1
   \<and> last_reset_time_rtc (safe_reset_sensor 1800000 1800001 power_on) = 1800001
   \<and> \<not> (unat (reset_count_this_session power_on) < 3
         \<and> 1800000 \<le> unat (1799999 - last_reset_time_rtc power_on))
   \<and> reset_count_this_session (safe_reset_sensor 1799999 1800000 power_on) = 0
   \<and> last_reset_time_rtc (safe_reset_sensor 1799999 1800000 power_on) = 0"
  using safe_reset_sensor_budget [of power_on 1800000 1800001]
        safe_reset_sensor_budget [of power_on 1799999 1800000]
  by (simp add: power_on_def reset_sensor_via_serial_def emit_def emitted_def reset_class_def)

lemma is_reset_safe_logged_state [simp]:
  "fst (is_reset_safe now (s\<lparr>trace := tr\<rparr>)) = fst (is_reset_safe now s)"
  by (simp add: is_reset_safe_fst)

lemma denial_reason_trace [simp]: "denial_reason (s\<lparr>trace := tr\<rparr>) = denial_reason s"
  by (simp add: denial_reason_def)

lemma loop_read_failure_denied:
  assumes den: "\<not> fst (is_reset_safe (t_reset_check r) s)"
      and thr: "15 \<le> consecutive_failures s + 1"
  shows "loop_read_failure r s =
           s\<lparr>failed_readings := failed_readings s + 1,
             consecutive_failures := 0,
             trace := trace s @ [Log Banner_test_serial, Link (SerialSend (Ascii ''TEST'')),
                                 Log (denial_reason s), Log Reset_cancelled]\<rparr>"
proof -
  let ?s2 = "test_serial_communication
               (s\<lparr>failed_readings := failed_readings s + 1,
                  consecutive_failures := consecutive_failures s + 1\<rparr>)"
  have "(10::u32) \<le> 15" by simp
  from this thr have ten: "10 \<le> consecutive_failures s + 1"
    by (rule order_trans)
  have den2: "\<not> fst (is_reset_safe (t_reset_check r) ?s2)"
    using den by (simp add: is_reset_safe_fst test_serial_communication_def emit_def)
  show ?thesis
    unfolding loop_read_failure_def Let_def
    using thr ten
    apply (simp add: test_serial_communication_def emit_def)
    apply (simp add: safe_reset_sensor_denied [OF den2, unfolded test_serial_communication_def emit_def, simplified]
                     denial_reason_def)
    done
qed

lemma loop_consecutive_failures_denied:
  assumes d1: "\<not> fst (is_reset_safe (rt_check rt) s)"
      and d2: "\<not> fst (is_reset_safe (rt_check2 rt) s)"
      and thr: "MAX_CONSECUTIVE_FAILURES \<le> consecutive_failures s"
  shows "loop_consecutive_failures rt s =
           s\<lparr>trace := trace s @ [Log (denial_reason s), Log Reset_cancelled]
                        @ (if MAX_CONSECUTIVE_FAILURES * 2 \<le> consecutive_failures s
                           then [Log (denial_reason s)] else []),
             consecutive_failures := 0\<rparr>"
proof -
  let ?s1 = "s\<lparr>trace := trace s @ [Log (denial_reason s), Log Reset_cancelled]\<rparr>"
  have d2': "\<not> fst (is_reset_safe (rt_check2 rt) ?s1)" using d2 by simp
  show ?thesis
    unfolding loop_consecutive_failures_def Let_def
    using thr
    by (simp add: safe_reset_sensor_denied [OF d1] is_reset_safe_denied [OF d2'])
qed

lemma loop_operation_time_denied:
  assumes d1: "\<not> fst (is_reset_safe (rt_check rt) s)"
      and d2: "\<not> fst (is_reset_safe (rt_check2 rt) s)"
  shows "\<exists>es. loop_operation_time t rt s = s\<lparr>trace := trace s @ es\<rparr> \<and> \<not> list_ex reset_class es"
proof -
  let ?s1 = "s\<lparr>trace := trace s @ [Log (denial_reason s), Log Reset_cancelled]\<rparr>"
  have d2': "\<not> fst (is_reset_safe (rt_check2 rt) ?s1)" using d2 by simp
  show ?thesis
  proof (cases "t div 1000 > 7200 \<and> (t div 1000) mod 7200 < 60")
    case False
    then have "loop_operation_time t rt s = s\<lparr>trace := trace s @ []\<rparr>"
      unfolding loop_operation_time_def Let_def by auto
    then show ?thesis by (intro exI [of _ "[]"]) simp
  next
    case True
    show ?thesis
    proof (cases "consecutive_failures s > 0")
      case True
      with \<open>t div 1000 > 7200 \<and> (t div 1000) mod 7200 < 60\<close>
      have "loop_operation_time t rt s =
              s\<lparr>trace := trace s @ [Log (denial_reason s), Log Reset_cancelled, Log (denial_reason s)]\<rparr>"
        unfolding loop_operation_time_def Let_def
        by (simp add: safe_reset_sensor_denied [OF d1] is_reset_safe_denied [OF d2'])
      then show ?thesis
        by (intro exI [of _ "[Log (denial_reason s), Log Reset_cancelled, Log (denial_reason s)]"]) simp
    next
      case False
      with \<open>t div 1000 > 7200 \<and> (t div 1000) mod 7200 < 60\<close>
      have "loop_operation_time t rt s =
              s\<lparr>trace := trace s @ [Log (denial_reason s), Log Reset_cancelled]\<rparr>"
        unfolding loop_operation_time_def Let_def
        by (simp add: safe_reset_sensor_denied [OF d1])
      then show ?thesis
        by (intro exI [of _ "[Log (denial_reason s), Log Reset_cancelled]"]) simp
    qed
  qed
qed

lemma loop_read_failure_no_reset:
  assumes den: "\<not> fst (is_reset_safe (t_reset_check r) s)"
  shows "\<not> list_ex reset_class (emitted s (loop_read_failure r s))"
proof (cases "15 \<le> consecutive_failures s + 1")
  case True
  have "emitted s (loop_read_failure r s) =
          [Log Banner_test_serial, Link (SerialSend (Ascii ''TEST'')),
           Log (denial_reason s), Log Reset_cancelled]"
    by (rule emitted_append) (simp add: loop_read_failure_denied [OF den True])
  then show ?thesis by simp
next
  case False
  then have "emitted s (loop_read_failure r s) =
          (if 10 \<le> consecutive_failures s + 1
           then [Log Banner_test_serial, Link (SerialSend (Ascii ''TEST''))] else [])"
    unfolding loop_read_failure_def Let_def
    by (simp add: test_serial_communication_def emit_def emitted_def)
  then show ?thesis by simp
qed


text \<open>
  C4, as stated: a denial would leave every failure counter as it was. After fourteen
  failed updates from power-on the counter is 14; the fifteenth requests a reset, which
  is denied (less than 30 minutes since \<^verbatim>\<open>last_reset_time_rtc = 0\<close>) and logged, no link
  operation other than the \<^verbatim>\<open>TEST\<close> probe is made, and the counter is 0 afterwards.
\<close>

theorem denied_reset_clears_counter:
  "consecutive_failures (sensing_cycles (quiet_cycles 14 0) power_on) = 14
   \<and> emitted (sensing_cycles (quiet_cycles 14 0) power_on)
        (sensing_cycles (quiet_cycles 15 0) power_on)
      = [Log Banner_test_serial, Link (SerialSend (Ascii ''TEST'')),
         Log Reset_wait, Log Reset_cancelled]
   \<and> consecutive_failures (sensing_cycles (quiet_cycles 15 0) power_on) = 0"
  by code_simp

text \<open>
  C4, amended: when \<^verbatim>\<open>is_reset_safe\<close> refuses, \<^verbatim>\<open>safe_reset_sensor\<close> logs the reason and the
  cancellation and changes nothing else: no link operation, no counter, no budget field.
  The blocks of \<^verbatim>\<open>loop\<close> that asked for the reset then set \<^verbatim>\<open>consecutive_failures\<close> to 0
  all the same (lines 2204 and 1856) and change no other counter but \<^verbatim>\<open>failed_readings\<close>,
  which the failed cycle itself increments.
\<close>

theorem reset_denial_inert:
  "(\<not> (unat (reset_count_this_session s) < 3
        \<and> 1800000 \<le> unat (now - last_reset_time_rtc s))
      \<longrightarrow> safe_reset_sensor now t_mark s =
            s\<lparr>trace := trace s @ [Log (denial_reason s), Log Reset_cancelled]\<rparr>)
   \<and> (\<not> (unat (reset_count_this_session s) < 3
          \<and> 1800000 \<le> unat (t_reset_check r - last_reset_time_rtc s))
        \<and> 15 \<le> consecutive_failures s + 1
      \<longrightarrow> loop_read_failure r s =
            s\<lparr>failed_readings := failed_readings s + 1,
              consecutive_failures := 0,
              trace := trace s @ [Log Banner_test_serial, Link (SerialSend (Ascii ''TEST'')),
                                  Log (denial_reason s), Log Reset_cancelled]\<rparr>)
   \<and> (\<not> (unat (reset_count_this_session s) < 3
          \<and> 1800000 \<le> unat (rt_check rt - last_reset_time_rtc s))
        \<and> \<not> (unat (reset_count_this_session s) < 3
              \<and> 1800000 \<le> unat (rt_check2 rt - last_reset_time_rtc s))
        \<and> 20 \<le> consecutive_failures s
      \<longrightarrow> loop_consecutive_failures rt s =
            s\<lparr>trace := trace s @ [Log (denial_reason s), Log Reset_cancelled]
                         @ (if 40 \<le> consecutive_failures s then [Log (denial_reason s)] else []),
              consecutive_failures := 0\<rparr>)"
proof (intro conjI impI)
  assume "\<not> (unat (reset_count_this_session s) < 3
        \<and> 1800000 \<le> unat (now - last_reset_time_rtc s))"
  then have d: "\<not> fst (is_reset_safe now s)" by (simp add: is_reset_safe_fst)
  show "safe_reset_sensor now t_mark s =
            s\<lparr>trace := trace s @ [Log (denial_reason s), Log Reset_cancelled]\<rparr>"
    by (rule safe_reset_sensor_denied [OF d])
next
  assume h: "\<not> (unat (reset_count_this_session s) < 3
          \<and> 1800000 \<le> unat (t_reset_check r - last_reset_time_rtc s))
        \<and> 15 \<le> consecutive_failures s + 1"
  then have d: "\<not> fst (is_reset_safe (t_reset_check r) s)" by (simp add: is_reset_safe_fst)
  from h have thr: "15 \<le> consecutive_failures s + 1" by simp
  show "loop_read_failure r s =
            s\<lparr>failed_readings := failed_readings s + 1,
              consecutive_failures := 0,
              trace := trace s @ [Log Banner_test_serial, Link (SerialSend (Ascii ''TEST'')),
                                  Log (denial_reason s), Log Reset_cancelled]\<rparr>"
    by (rule loop_read_failure_denied [OF d thr])
next
  assume h: "\<not> (unat (reset_count_this_session s) < 3
          \<and> 1800000 \<le> unat (rt_check rt - last_reset_time_rtc s))
        \<and> \<not> (unat (reset_count_this_session s) < 3
              \<and> 1800000 \<le> unat (rt_check2 rt - last_reset_time_rtc s))
        \<and> 20 \<le> consecutive_failures s"
  then have d1: "\<not> fst (is_reset_safe (rt_check rt) s)"
        and d2: "\<not> fst (is_reset_safe (rt_check2 rt) s)"
    by (simp_all add: is_reset_safe_fst)
  from h have thr: "MAX_CONSECUTIVE_FAILURES \<le> consecutive_failures s"
    by (simp add: MAX_CONSECUTIVE_FAILURES_def)
  show "loop_consecutive_failures rt s =
            s\<lparr>trace := trace s @ [Log (denial_reason s), Log Reset_cancelled]
                         @ (if 40 \<le> consecutive_failures s then [Log (denial_reason s)] else []),
              consecutive_failures := 0\<rparr>"
    using loop_consecutive_failures_denied [OF d1 d2 thr]
    by (simp add: MAX_CONSECUTIVE_FAILURES_def)
qed

theorem reset_denial_inert_witness:
  "\<not> (unat (reset_count_this_session power_on) < 3
        \<and> 1800000 \<le> unat (90000 - last_reset_time_rtc power_on))
   \<and> safe_reset_sensor 90000 90001 power_on = power_on\<lparr>trace := [Log Reset_wait, Log Reset_cancelled]\<rparr>
   \<and> 15 \<le> consecutive_failures (power_on\<lparr>consecutive_failures := 14\<rparr>) + 1
   \<and> consecutive_failures (loop_read_failure (quiet_reading 90000) (power_on\<lparr>consecutive_failures := 14\<rparr>)) = 0
   \<and> 20 \<le> consecutive_failures (power_on\<lparr>consecutive_failures := 20\<rparr>)
   \<and> consecutive_failures (loop_consecutive_failures (alert_times (quiet_input 90000))
          (power_on\<lparr>consecutive_failures := 20\<rparr>)) = 0"
  using reset_denial_inert [where s = power_on and now = 90000 and t_mark = 90001
          and r = "quiet_reading 90000" and rt = "alert_times (quiet_input 90000)"]
        reset_denial_inert [where s = "power_on\<lparr>consecutive_failures := 14\<rparr>" and now = 90000
          and t_mark = 90001 and r = "quiet_reading 90000" and rt = "alert_times (quiet_input 90000)"]
        reset_denial_inert [where s = "power_on\<lparr>consecutive_failures := 20\<rparr>" and now = 90000
          and t_mark = 90001 and r = "quiet_reading 90000" and rt = "alert_times (quiet_input 90000)"]
  by (simp add: quiet_input_def quiet_reading_def power_on_def denial_reason_def MAX_RESETS_PER_SESSION_def)

text \<open>
  C1, as stated: no reset-class action would run while the budget refuses. From first
  boot with a silent sensor, five iterations of \<^verbatim>\<open>loop\<close> (31 s apart, all within the first
  30 minutes, during which \<^verbatim>\<open>is_reset_safe\<close> refuses since \<^verbatim>\<open>last_reset_time_rtc = 0\<close>) close
  and reopen the link through \<^verbatim>\<open>force_complete_sensor_reinitialization\<close>, although no reset
  was ever authorised.
\<close>

theorem forced_reinit_ignores_budget:
  "(case run_loop (map quiet_input [31000, 62000, 93000, 124000, 155000])
           (setup_fn first_boot power_on) of
      Active s \<Rightarrow>
        list_ex reset_class (emitted (setup_fn first_boot power_on) s)
        \<and> last_reset_time_rtc s = 0 \<and> reset_count_this_session s = 0
        \<and> Log Reset_authorized \<notin> set (trace s)
        \<and> \<not> fst (is_reset_safe 163235 s)
    | ScheduledSuspend s \<Rightarrow> False
    | EmergencySuspend s \<Rightarrow> False)"
  by code_simp

text \<open>
  C1, amended: the budget gates \<^verbatim>\<open>safe_reset_sensor\<close> and the blocks of \<^verbatim>\<open>loop\<close> that go
  through \<^verbatim>\<open>is_reset_safe\<close> (lines 1842-1857, 1859-1878 and 2200-2205). They execute no
  reset-class action when three resets were counted, or when less than 30 minutes have
  elapsed since \<^verbatim>\<open>last_reset_time_rtc\<close> at each of their checks; and \<^verbatim>\<open>safe_reset_sensor\<close>
  does restart the link once the count is below three and the interval has elapsed.
  The forced re-initialisations (lines 1768, 1800, 2046 and 672) do not consult the budget.
\<close>

theorem budget_gates_safe_paths:
  "(unat (reset_count_this_session s) < 3 \<and> 1800000 \<le> unat (rt_check rt - last_reset_time_rtc s)
      \<longrightarrow> list_ex reset_class (emitted s (safe_reset_sensor (rt_check rt) (rt_mark rt) s)))
   \<and> (3 \<le> unat (reset_count_this_session s)
        \<or> (\<forall>t \<in> {rt_check rt, rt_check2 rt, t_reset_check r}.
              unat (t - last_reset_time_rtc s) < 1800000)
      \<longrightarrow> \<not> list_ex reset_class (emitted s (safe_reset_sensor (rt_check rt) (rt_mark rt) s))
          \<and> \<not> list_ex reset_class (emitted s (loop_consecutive_failures rt s))
          \<and> \<not> list_ex reset_class (emitted s (loop_operation_time t_op rt s))
          \<and> \<not> list_ex reset_class (emitted s (loop_read_failure r s)))"
proof (intro conjI impI)
  assume "unat (reset_count_this_session s) < 3 \<and> 1800000 \<le> unat (rt_check rt - last_reset_time_rtc s)"
  then have ok: "fst (is_reset_safe (rt_check rt) s)" by (simp add: is_reset_safe_fst)
  show "list_ex reset_class (emitted s (safe_reset_sensor (rt_check rt) (rt_mark rt) s))"
    by (simp add: safe_reset_sensor_authorized [OF ok] reset_sensor_via_serial_def emit_def
        emitted_def reset_class_def)
next
  assume h: "3 \<le> unat (reset_count_this_session s)
        \<or> (\<forall>t \<in> {rt_check rt, rt_check2 rt, t_reset_check r}.
              unat (t - last_reset_time_rtc s) < 1800000)"
  then have d1: "\<not> fst (is_reset_safe (rt_check rt) s)"
        and d2: "\<not> fst (is_reset_safe (rt_check2 rt) s)"
        and d3: "\<not> fst (is_reset_safe (t_reset_check r) s)"
    by (auto simp: is_reset_safe_fst)
  have "emitted s (safe_reset_sensor (rt_check rt) (rt_mark rt) s) =
          [Log (denial_reason s), Log Reset_cancelled]"
    by (rule emitted_append) (simp add: safe_reset_sensor_denied [OF d1])
  then show "\<not> list_ex reset_class (emitted s (safe_reset_sensor (rt_check rt) (rt_mark rt) s))"
    by simp
  show "\<not> list_ex reset_class (emitted s (loop_consecutive_failures rt s))"
  proof (cases "MAX_CONSECUTIVE_FAILURES \<le> consecutive_failures s")
    case True
    have "emitted s (loop_consecutive_failures rt s) =
            [Log (denial_reason s), Log Reset_cancelled]
              @ (if MAX_CONSECUTIVE_FAILURES * 2 \<le> consecutive_failures s
                 then [Log (denial_reason s)] else [])"
      by (rule emitted_append) (simp add: loop_consecutive_failures_denied [OF d1 d2 True])
    then show ?thesis by simp
  next
    case False
    then show ?thesis by (simp add: loop_consecutive_failures_def emitted_def)
  qed
  from loop_operation_time_denied [OF d1 d2, of t_op]
  obtain es where "loop_operation_time t_op rt s = s\<lparr>trace := trace s @ es\<rparr>"
              and "\<not> list_ex reset_class es" by blast
  then show "\<not> list_ex reset_class (emitted s (loop_operation_time t_op rt s))"
    by (simp add: emitted_def)
  show "\<not> list_ex reset_class (emitted s (loop_read_failure r s))"
    by (rule loop_read_failure_no_reset [OF d3])
qed

theorem budget_gates_safe_paths_witness:
  "unat (reset_count_this_session power_on) < 3
   \<and> 1800000 \<le> unat (rt_check (alert_times (quiet_input 1796790)) - last_reset_time_rtc power_on)
   \<and> list_ex reset_class (emitted power_on
        (safe_reset_sensor (rt_check (alert_times (quiet_input 1796790)))
           (rt_mark (alert_times (quiet_input 1796790))) power_on))
   \<and> unat (rt_check (alert_times (quiet_input 1000)) - last_reset_time_rtc power_on) < 1800000
   \<and> unat (rt_check2 (alert_times (quiet_input 1000)) - last_reset_time_rtc power_on) < 1800000
   \<and> unat (t_reset_check (quiet_reading 1000) - last_reset_time_rtc power_on) < 1800000
   \<and> \<not> list_ex reset_class (emitted power_on
        (safe_reset_sensor (rt_check (alert_times (quiet_input 1000)))
           (rt_mark (alert_times (quiet_input 1000))) power_on))
   \<and> \<not> list_ex reset_class (emitted power_on
        (loop_consecutive_failures (alert_times (quiet_input 1000)) power_on))
   \<and> \<not> list_ex reset_class (emitted power_on
        (loop_operation_time 7201000 (alert_times (quiet_input 1000)) power_on))
   \<and> \<not> list_ex reset_class (emitted power_on (loop_read_failure (quiet_reading 1000) power_on))"
  using budget_gates_safe_paths [of power_on "alert_times (quiet_input 1796790)" "quiet_reading 1000" 0]
        budget_gates_safe_paths [of power_on "alert_times (quiet_input 1000)" "quiet_reading 1000" 7201000]
  by (simp add: quiet_input_def quiet_reading_def power_on_def)

subsection \<open>Duty cycle\<close>

lemma recovery_actions_emit:
  "force_complete_sensor_reinitialization s =
     emit ([Log Banner_force_reinit, Link SerialEnd, Link SerialBegin, Link DriverBegin,
            Link SerialDrain, Link (SerialSend Frame_continuous_mode),
            Link (SerialSend Frame_sleep_disable), Link (SerialSend Frame_always_on),
            Link SerialDrain, Link (SerialSend (Ascii ''CONTINUOUS_MODE=1'')),
            Link (SerialSend (Ascii ''SLEEP_MODE=0'')), Link (SerialSend (Ascii ''ALWAYS_ON=1'')),
            Link (SerialSend (Ascii ''TIMEOUT=0'')),
            Link (SerialSend (Ascii ''CONTINUOUS_DETECTION=1'')),
            Link (SerialSend Frame_position_enable), Link (SerialSend Frame_calibrate),
            Link (SerialSend (Ascii ''POSITION_MODE=1'')),
            Link (SerialSend (Ascii ''POSITION_CALIBRATION=1'')),
            Link (SerialSend (Ascii ''TARGET_TRACKING=1''))]) s"
  "attempt_position_recovery s =
     emit ([Log Banner_position_recovery, Link SerialDrain,
            Link (SerialSend Frame_position_enable), Link (SerialSend Frame_calibrate),
            Link (SerialSend (Ascii ''POSITION_MODE=1'')),
            Link (SerialSend (Ascii ''POSITION_CALIBRATION=1'')),
            Link (SerialSend (Ascii ''TARGET_TRACKING=1''))]) s"
  by (simp_all add: force_complete_sensor_reinitialization_def attempt_position_recovery_def
      reconfigure_position_system_def configure_sensor_continuous_mode_ascii_def
      configure_sensor_continuous_mode_def emit_def)

lemma emit_sleep_fields [simp]:
  "last_hourly_sleep (emit es s) = last_hourly_sleep s"
  "last_data_received (emit es s) = last_data_received s"
  "is_hourly_sleep_mode (emit es s) = is_hourly_sleep_mode s"
  by (simp_all add: emit_def)

lemma loop_diagnostic_sleep_fields [simp]:
  "last_hourly_sleep (loop_diagnostic t tm a b s) = last_hourly_sleep s"
  "last_data_received (loop_diagnostic t tm a b s) = last_data_received s"
  "is_hourly_sleep_mode (loop_diagnostic t tm a b s) = is_hourly_sleep_mode s"
  by (simp_all add: loop_diagnostic_def perform_system_diagnostic_def
      check_serial_communication_def Let_def)

lemma loop_serial_check_sleep_fields [simp]:
  "last_hourly_sleep (loop_serial_check t tm a b s) = last_hourly_sleep s"
  "last_data_received (loop_serial_check t tm a b s) = last_data_received s"
  "is_hourly_sleep_mode (loop_serial_check t tm a b s) = is_hourly_sleep_mode s"
  by (simp_all add: loop_serial_check_def check_serial_communication_def Let_def)

lemma loop_complete_failure_check_sleep_fields [simp]:
  "last_hourly_sleep (loop_complete_failure_check t tm s) = last_hourly_sleep s"
  "last_data_received (loop_complete_failure_check t tm s) = last_data_received s"
  "is_hourly_sleep_mode (loop_complete_failure_check t tm s) = is_hourly_sleep_mode s"
  by (simp_all add: loop_complete_failure_check_def recovery_actions_emit Let_def)

lemma keep_sensor_active_sleep_fields [simp]:
  "last_hourly_sleep (keep_sensor_active t tm s) = last_hourly_sleep s"
  "last_data_received (keep_sensor_active t tm s) = last_data_received s"
  "is_hourly_sleep_mode (keep_sensor_active t tm s) = is_hourly_sleep_mode s"
  by (simp_all add: keep_sensor_active_def)

lemma loop_position_recovery_sleep_fields [simp]:
  "last_hourly_sleep (loop_position_recovery t tm s) = last_hourly_sleep s"
  "last_data_received (loop_position_recovery t tm s) = last_data_received s"
  "is_hourly_sleep_mode (loop_position_recovery t tm s) = is_hourly_sleep_mode s"
  by (simp_all add: loop_position_recovery_def recovery_actions_emit Let_def)

lemma loop_before_sleep_frame:
  "last_hourly_sleep (loop_before_sleep i s) = last_hourly_sleep s
   \<and> last_data_received (loop_before_sleep i s) = last_data_received s
   \<and> is_hourly_sleep_mode (loop_before_sleep i s) = is_hourly_sleep_mode s"
  by (simp add: loop_before_sleep_def)

text \<open>
  C7. In an iteration in which the hourly window has not elapsed (whatever is left of it)
  and the last data are more than ten minutes (600000 ms) old, \<^verbatim>\<open>loop\<close> halts in the
  emergency deep sleep of one minute, whatever the blocks before it did. The marks are
  taken not to lie ahead of the clock, as within one session.
\<close>

theorem emergency_suspend_on_silence:
  assumes "last_hourly_sleep s \<le> t_hourly i"
      and "unat (t_hourly i - last_hourly_sleep s) \<le> 3600000"
      and "last_data_received s \<le> t_timeout i"
      and "600000 < unat (t_timeout i - last_data_received s)"
  shows "\<exists>s'. loop i s = EmergencySuspend s'
           \<and> emitted (loop_before_sleep i s) s' = [Log Emergency_timeout, DeepSleepStart 60000000]
           \<and> last_hourly_sleep s' = last_hourly_sleep s
           \<and> is_hourly_sleep_mode s' = is_hourly_sleep_mode s"
proof -
  let ?s1 = "loop_before_sleep i s"
  have nh: "\<not> check_timeout_safe (t_hourly i) (last_hourly_sleep ?s1) HOURLY_SLEEP_INTERVAL"
    using assms(1,2) nowrap_branch_iff [of "last_hourly_sleep s" "t_hourly i" HOURLY_SLEEP_INTERVAL]
    by (simp add: loop_before_sleep_frame HOURLY_SLEEP_INTERVAL_def)
  have to: "check_timeout_safe (t_timeout i) (last_data_received ?s1) RESET_TIMEOUT"
    using assms(3,4) nowrap_branch_iff [of "last_data_received s" "t_timeout i" RESET_TIMEOUT]
    by (simp add: loop_before_sleep_frame RESET_TIMEOUT_def)
  have "loop i s = EmergencySuspend (enter_deep_sleep (ucast DEEP_SLEEP_DURATION) (emit [Log Emergency_timeout] ?s1))"
    using nh to by (simp add: loop_def Let_def)
  then show ?thesis
    by (simp add: enter_deep_sleep_def emit_def emitted_def DEEP_SLEEP_DURATION_def
        loop_before_sleep_frame)
qed

theorem emergency_suspend_on_silence_witness:
  "last_hourly_sleep (setup_fn first_boot power_on) \<le> t_hourly (quiet_input 700000)
   \<and> unat (t_hourly (quiet_input 700000) - last_hourly_sleep (setup_fn first_boot power_on)) \<le> 3600000
   \<and> last_data_received (setup_fn first_boot power_on) \<le> t_timeout (quiet_input 700000)
   \<and> 600000 < unat (t_timeout (quiet_input 700000) - last_data_received (setup_fn first_boot power_on))
   \<and> (\<exists>s'. loop (quiet_input 700000) (setup_fn first_boot power_on) = EmergencySuspend s'
           \<and> emitted (loop_before_sleep (quiet_input 700000) (setup_fn first_boot power_on)) s'
                = [Log Emergency_timeout, DeepSleepStart 60000000]
           \<and> last_hourly_sleep s' = last_hourly_sleep (setup_fn first_boot power_on)
           \<and> is_hourly_sleep_mode s' = is_hourly_sleep_mode (setup_fn first_boot power_on))"
proof -
  have a: "last_hourly_sleep (setup_fn first_boot power_on) \<le> t_hourly (quiet_input 700000)"
    by (simp add: setup_fn_def first_boot_def power_on_def quiet_input_def reset_sensor_system_def configure_sensor_continuous_mode_def configure_sensor_continuous_mode_ascii_def emit_def Let_def)
  have b: "unat (t_hourly (quiet_input 700000) - last_hourly_sleep (setup_fn first_boot power_on)) \<le> 3600000"
    by (simp add: setup_fn_def first_boot_def power_on_def quiet_input_def reset_sensor_system_def configure_sensor_continuous_mode_def configure_sensor_continuous_mode_ascii_def emit_def Let_def)
  have c: "last_data_received (setup_fn first_boot power_on) \<le> t_timeout (quiet_input 700000)"
    by (simp add: setup_fn_def first_boot_def power_on_def quiet_input_def reset_sensor_system_def configure_sensor_continuous_mode_def configure_sensor_continuous_mode_ascii_def emit_def Let_def)
  have d: "600000 < unat (t_timeout (quiet_input 700000) - last_data_received (setup_fn first_boot power_on))"
    by (simp add: setup_fn_def first_boot_def power_on_def quiet_input_def reset_sensor_system_def configure_sensor_continuous_mode_def configure_sensor_continuous_mode_ascii_def emit_def Let_def)
  from a b c d emergency_suspend_on_silence [OF a b c d] show ?thesis by blast
qed

lemma wake_clears_hourly_flag: "is_hourly_sleep_mode (wake_from_deep_sleep s) = False"
  by (simp add: wake_from_deep_sleep_def power_on_def)

lemma setup_after_wake:
  assumes "woke j"
  shows "emitted (wake_from_deep_sleep s) (setup_fn j (wake_from_deep_sleep s)) =
           [Link SerialBegin, Link DriverBegin, Log Woke_normal, Log Banner_reset_system,
            Link SerialEnd, Link SerialBegin, Link SerialDrain, Link DriverBegin,
            Link SerialDrain, Link (SerialSend Frame_continuous_mode),
            Link (SerialSend Frame_sleep_disable), Link (SerialSend Frame_always_on)]
           @ (if test_after_config j then []
              else [Link SerialDrain, Link (SerialSend (Ascii ''CONTINUOUS_MODE=1'')),
                    Link (SerialSend (Ascii ''SLEEP_MODE=0'')),
                    Link (SerialSend (Ascii ''ALWAYS_ON=1'')),
                    Link (SerialSend (Ascii ''TIMEOUT=0'')),
                    Link (SerialSend (Ascii ''CONTINUOUS_DETECTION=1''))])"
  using assms
  by (simp add: setup_fn_def Let_def wake_clears_hourly_flag reset_sensor_system_def
      configure_sensor_continuous_mode_def configure_sensor_continuous_mode_ascii_def
      emit_def emitted_def)

text \<open>
  C6. When more than an hour (3600000 ms) has elapsed since \<^verbatim>\<open>last_hourly_sleep\<close>, \<^verbatim>\<open>loop\<close>
  sets \<^verbatim>\<open>is_hourly_sleep_mode\<close>, stores the current tick in \<^verbatim>\<open>last_hourly_sleep\<close> and starts a
  deep sleep of 60000000 microseconds. \<^verbatim>\<open>last_hourly_sleep\<close> is declared \<^verbatim>\<open>RTC_DATA_ATTR\<close>
  and is still there after the wake-up; \<^verbatim>\<open>is_hourly_sleep_mode\<close> is not (line 46), so it
  is false again when \<^verbatim>\<open>setup()\<close> inspects it (line 1634), and \<^verbatim>\<open>setup()\<close> reports a normal
  wake-up, never the hourly one.
\<close>

theorem hourly_flag_lost_in_deep_sleep:
  assumes "last_hourly_sleep s \<le> t_hourly i"
      and "3600000 < unat (t_hourly i - last_hourly_sleep s)"
      and "woke j"
  shows "\<exists>s'. loop i s = ScheduledSuspend s'
           \<and> is_hourly_sleep_mode s'
           \<and> last_hourly_sleep s' = t_hourly_mark i
           \<and> emitted (loop_before_sleep i s) s' = [Log Hourly_sleep, DeepSleepStart 60000000]
           \<and> last_hourly_sleep (wake_from_deep_sleep s') = t_hourly_mark i
           \<and> \<not> is_hourly_sleep_mode (wake_from_deep_sleep s')
           \<and> Log Woke_normal \<in> set (emitted (wake_from_deep_sleep s')
                                      (setup_fn j (wake_from_deep_sleep s')))
           \<and> Log Woke_hourly \<notin> set (emitted (wake_from_deep_sleep s')
                                      (setup_fn j (wake_from_deep_sleep s')))"
proof -
  let ?s1 = "loop_before_sleep i s"
  have due: "check_timeout_safe (t_hourly i) (last_hourly_sleep ?s1) HOURLY_SLEEP_INTERVAL"
    using assms(1,2) nowrap_branch_iff [of "last_hourly_sleep s" "t_hourly i" HOURLY_SLEEP_INTERVAL]
    by (simp add: loop_before_sleep_frame HOURLY_SLEEP_INTERVAL_def)
  let ?s' = "enter_deep_sleep (ucast DEEP_SLEEP_DURATION)
               ((emit [Log Hourly_sleep] ?s1)
                  \<lparr>is_hourly_sleep_mode := True, last_hourly_sleep := t_hourly_mark i\<rparr>)"
  have l: "loop i s = ScheduledSuspend ?s'"
    using due by (simp add: loop_def Let_def)
  have a: "is_hourly_sleep_mode ?s' \<and> last_hourly_sleep ?s' = t_hourly_mark i
           \<and> emitted ?s1 ?s' = [Log Hourly_sleep, DeepSleepStart 60000000]"
    by (simp add: enter_deep_sleep_def emit_def emitted_def DEEP_SLEEP_DURATION_def)
  have b: "last_hourly_sleep (wake_from_deep_sleep ?s') = t_hourly_mark i"
    by (simp add: wake_from_deep_sleep_def enter_deep_sleep_def emit_def)
  have c: "Log Woke_normal \<in> set (emitted (wake_from_deep_sleep ?s')
                                      (setup_fn j (wake_from_deep_sleep ?s')))
           \<and> Log Woke_hourly \<notin> set (emitted (wake_from_deep_sleep ?s')
                                      (setup_fn j (wake_from_deep_sleep ?s')))"
    by (simp add: setup_after_wake [OF assms(3)])
  show ?thesis
    using l a b c wake_clears_hourly_flag [of ?s'] by blast
qed

theorem hourly_flag_lost_in_deep_sleep_witness:
  "last_hourly_sleep (setup_fn first_boot power_on) \<le> t_hourly (quiet_input 3600001)
   \<and> 3600000 < unat (t_hourly (quiet_input 3600001)
                     - last_hourly_sleep (setup_fn first_boot power_on))
   \<and> woke wake_boot
   \<and> (\<exists>s'. loop (quiet_input 3600001) (setup_fn first_boot power_on) = ScheduledSuspend s'
           \<and> is_hourly_sleep_mode s'
           \<and> last_hourly_sleep s' = 3603209
           \<and> \<not> is_hourly_sleep_mode (wake_from_deep_sleep s')
           \<and> Log Woke_normal \<in> set (emitted (wake_from_deep_sleep s')
                                      (setup_fn wake_boot (wake_from_deep_sleep s')))
           \<and> Log Woke_hourly \<notin> set (emitted (wake_from_deep_sleep s')
                                      (setup_fn wake_boot (wake_from_deep_sleep s'))))"
proof -
  have a: "last_hourly_sleep (setup_fn first_boot power_on) \<le> t_hourly (quiet_input 3600001)"
    and b: "3600000 < unat (t_hourly (quiet_input 3600001)
                     - last_hourly_sleep (setup_fn first_boot power_on))"
    and c: "woke wake_boot"
    and d: "t_hourly_mark (quiet_input 3600001) = 3603209"
    by (simp_all add: setup_fn_def first_boot_def wake_boot_def power_on_def quiet_input_def
        reset_sensor_system_def configure_sensor_continuous_mode_def
        configure_sensor_continuous_mode_ascii_def emit_def Let_def)
  from hourly_flag_lost_in_deep_sleep [OF a b c] a b c d show ?thesis by auto
qed

subsection \<open>Failure counters\<close>

lemma recovery_emit_forms:
  "test_serial_communication s =
     emit [Log Banner_test_serial, Link (SerialSend (Ascii ''TEST''))] s"
  "test_all_reset_methods t1 t2 s =
     emit ([Log Banner_test_all_resets, Link SerialDrain, Link (SerialSend Frame_reset)]
           @ (if t1 then []
              else [Link SerialDrain, Link (SerialSend (Ascii ''RESET'')),
                    Link (SerialSend (Ascii ''RST''))]
                   @ (if t2 then []
                      else [Log Banner_reset_via_serial, Link SerialEnd, Link SerialBegin,
                            Link DriverBegin]))) s"
  "careful_sensor_reinitialization bt s =
     emit ([Log Banner_careful_reinit, Link SerialDrain]
           @ (if bt then [] else [Link SerialEnd, Link SerialBegin, Link DriverBegin])) s"
  "reset_position_communication s = emit [Log Banner_reset_position, Link SerialDrain] s"
  "verify_post_reset_functionality s = emit [Log Banner_verify_post_reset] s"
  by (simp_all add: test_serial_communication_def test_all_reset_methods_def
      careful_sensor_reinitialization_def reset_position_communication_def
      verify_post_reset_functionality_def reset_radar_tiny_frame_def reset_radar_ascii_def
      reset_sensor_via_serial_def emit_def Let_def)

lemma get_vital_signs_robust_eq:
  "get_vital_signs_robust drv s =
     (fst (robust_attempts drv 5 1 (breath_rate s) (heart_rate s)),
      s\<lparr>trace := trace s @ [Log Banner_robust_vitals],
        breath_rate := fst (snd (robust_attempts drv 5 1 (breath_rate s) (heart_rate s))),
        heart_rate := snd (snd (robust_attempts drv 5 1 (breath_rate s) (heart_rate s)))\<rparr>)"
  by (simp add: get_vital_signs_robust_def emit_def split: prod.splits)

lemma loop_vitals_failed_counters [simp]:
  "consecutive_failures (loop_vitals_failed v r s) = consecutive_failures s"
  "consecutive_all_failed_count (loop_vitals_failed v r s) = consecutive_all_failed_count s"
  "last_all_failed_debug (loop_vitals_failed v r s) = last_all_failed_debug s"
  by (simp_all add: loop_vitals_failed_def Let_def simulate_vital_signs_def emit_def
      get_vital_signs_robust_eq)

lemma loop_all_failed_consecutive_failures [simp]:
  "consecutive_failures (loop_all_failed a r s) = consecutive_failures s"
  by (simp add: loop_all_failed_def Let_def recovery_emit_forms emit_def)

lemma loop_position_counters [simp]:
  "consecutive_failures (loop_position r s) = consecutive_failures s"
  "consecutive_all_failed_count (loop_position r s) = consecutive_all_failed_count s"
  by (simp_all add: loop_position_def Let_def recovery_emit_forms emit_def
      split: option.splits list.splits)

lemma loop_fallback_counters [simp]:
  "consecutive_failures (loop_fallback r s) = consecutive_failures s"
  "consecutive_all_failed_count (loop_fallback r s) = consecutive_all_failed_count s"
  by (simp_all add: loop_fallback_def Let_def)

lemma loop_read_success_consecutive_failures:
  "consecutive_failures (loop_read_success r s) = 0"
  by (simp add: loop_read_success_def Let_def send_formatted_data_def emit_def)

lemma loop_read_failure_consecutive_failures:
  "consecutive_failures (loop_read_failure r s) =
     (if 15 \<le> consecutive_failures s + 1 then 0 else consecutive_failures s + 1)"
proof -
  have "(10::u32) \<le> 15" by simp
  then have "15 \<le> consecutive_failures s + 1 \<Longrightarrow> 10 \<le> consecutive_failures s + 1"
    by (rule order_trans)
  then show ?thesis
    by (auto simp: loop_read_failure_def Let_def recovery_emit_forms emit_def)
qed

lemma sensing_cycles_snoc:
  "sensing_cycles (rs @ [r]) s = loop_sensor_read r (sensing_cycles rs s)"
  by (induction rs arbitrary: s) simp_all

lemma failure_run_snoc:
  "failure_run (rs @ [r]) = (if update_ok r then 0 else Suc (failure_run rs))"
  by (simp add: failure_run_def)

lemma failure_run_all_failed:
  "\<forall>r \<in> set rs. \<not> update_ok r \<Longrightarrow> failure_run rs = length rs"
  by (simp add: failure_run_def takeWhile_eq_all_conv [THEN iffD2])

lemma counter_step:
  assumes "unat c = n mod 15"
  shows "unat (if 15 \<le> c + 1 then 0 else c + (1::u32)) = Suc n mod 15"
proof -
  have lt: "unat c < 15" using assms by simp
  then have u: "unat (c + 1) = unat c + 1"
    by (simp add: unat_word_ariths)
  have "15 \<le> c + 1 \<longleftrightarrow> 15 \<le> unat c + 1"
    using u by (simp add: word_le_nat_alt)
  then show ?thesis
    using assms lt u by (auto simp: mod_Suc)
qed

lemma consecutive_failures_run:
  assumes "unat (consecutive_failures s) < 15"
  shows "unat (consecutive_failures (sensing_cycles rs s)) =
           (if \<forall>r \<in> set rs. \<not> update_ok r
            then (unat (consecutive_failures s) + length rs) mod 15
            else failure_run rs mod 15)"
proof (induction rs rule: rev_induct)
  case Nil
  then show ?case using assms by simp
next
  case (snoc r rs)
  show ?case
  proof (cases "update_ok r")
    case True
    then show ?thesis
      by (simp add: sensing_cycles_snoc loop_sensor_read_def failure_run_snoc
          loop_read_success_consecutive_failures)
  next
    case False
    let ?c = "consecutive_failures (sensing_cycles rs s)"
    have step: "consecutive_failures (sensing_cycles (rs @ [r]) s) =
                  (if 15 \<le> ?c + 1 then 0 else ?c + 1)"
      using False
      by (simp add: sensing_cycles_snoc loop_sensor_read_def loop_read_failure_consecutive_failures)
    show ?thesis
    proof (cases "\<forall>r \<in> set rs. \<not> update_ok r")
      case True
      with snoc have "unat ?c = (unat (consecutive_failures s) + length rs) mod 15" by simp
      from counter_step [OF this] show ?thesis
        using True False by (simp add: step)
    next
      case nall: False
      with snoc have "unat ?c = failure_run rs mod 15" by simp
      from counter_step [OF this] show ?thesis
        using nall False by (auto simp: step failure_run_snoc)
    qed
  qed
qed


lemma safe_reset_sensor_all_failed_count [simp]:
  "consecutive_all_failed_count (safe_reset_sensor now tm s) = consecutive_all_failed_count s"
  by (cases "fst (is_reset_safe now s)")
     (simp_all add: safe_reset_sensor_authorized safe_reset_sensor_denied
        reset_sensor_via_serial_def emit_def)

lemma loop_read_failure_all_failed_count:
  "consecutive_all_failed_count (loop_read_failure r s) = consecutive_all_failed_count s"
  by (simp add: loop_read_failure_def Let_def recovery_emit_forms emit_def)

lemma loop_all_failed_count:
  "consecutive_all_failed_count (loop_all_failed a r s) =
     (if a \<and> 10000 < t_all_failed r - last_all_failed_debug s
      then (if 5 \<le> consecutive_all_failed_count s + 1 then 0
            else consecutive_all_failed_count s + 1)
      else if \<not> a then 0 else consecutive_all_failed_count s)"
  by (simp add: loop_all_failed_def Let_def recovery_emit_forms emit_def)

lemma loop_read_success_all_failed_count:
  "consecutive_all_failed_count (loop_read_success r s) =
     (if read_or_zero (breath_read r) = 0 \<and> read_or_zero (heart_read r) = 0
         \<and> read_or_zero (distance_read r) = 0
      then (if 10000 < t_all_failed r - last_all_failed_debug s
            then (if 5 \<le> consecutive_all_failed_count s + 1 then 0
                  else consecutive_all_failed_count s + 1)
            else consecutive_all_failed_count s)
      else 0)"
  by (simp add: loop_read_success_def Let_def send_formatted_data_def emit_def
      loop_all_failed_count)

text \<open>
  C3, as stated: each counter would be the length of the current run of its condition.
  After fifteen failed updates in a row \<^verbatim>\<open>consecutive_failures\<close> is 0; and after two cycles
  5.5 s apart, in both of which the update succeeded and breath rate, heart rate and
  distance were all 0, \<^verbatim>\<open>consecutive_all_failed_count\<close> is 1.
\<close>

theorem counters_are_not_run_lengths:
  "failure_run (quiet_cycles 15 0) = 15
   \<and> consecutive_failures (sensing_cycles (quiet_cycles 15 0) power_on) = 0
   \<and> list_all (\<lambda>r. update_ok r \<and> read_or_zero (breath_read r) = 0
                    \<and> read_or_zero (heart_read r) = 0 \<and> read_or_zero (distance_read r) = 0)
        [blank_reading 20000, blank_reading 25500]
   \<and> consecutive_all_failed_count
        (sensing_cycles [blank_reading 20000, blank_reading 25500] power_on) = 1"
  by code_simp

text \<open>
  C3, amended. Over any sequence of sensing cycles started with
  \<^verbatim>\<open>consecutive_failures = 0\<close>, that counter is the length of the current run of failed
  updates modulo 15: a successful update resets it, and so does reaching 15 (line 2204).
  \<^verbatim>\<open>consecutive_all_failed_count\<close> counts rate-limited checks: a failed update leaves it
  alone; a successful update with some datum resets it; a successful update with all
  three data at 0 leaves it alone within 10 s of the last counted one and otherwise
  increments it, back to 0 on reaching 5. Outside the sensing cycle
  \<^verbatim>\<open>check_serial_communication\<close> resets or increments \<^verbatim>\<open>consecutive_failures\<close> as well.
\<close>

theorem consecutive_counters:
  "(consecutive_failures s = 0
      \<longrightarrow> unat (consecutive_failures (sensing_cycles rs s)) = failure_run rs mod 15)
   \<and> (\<not> update_ok r
      \<longrightarrow> consecutive_all_failed_count (loop_sensor_read r s) = consecutive_all_failed_count s)
   \<and> (update_ok r
        \<and> \<not> (read_or_zero (breath_read r) = 0 \<and> read_or_zero (heart_read r) = 0
              \<and> read_or_zero (distance_read r) = 0)
      \<longrightarrow> consecutive_all_failed_count (loop_sensor_read r s) = 0)
   \<and> (update_ok r
        \<and> read_or_zero (breath_read r) = 0 \<and> read_or_zero (heart_read r) = 0
        \<and> read_or_zero (distance_read r) = 0
        \<and> \<not> 10000 < t_all_failed r - last_all_failed_debug s
      \<longrightarrow> consecutive_all_failed_count (loop_sensor_read r s) = consecutive_all_failed_count s)
   \<and> (update_ok r
        \<and> read_or_zero (breath_read r) = 0 \<and> read_or_zero (heart_read r) = 0
        \<and> read_or_zero (distance_read r) = 0
        \<and> 10000 < t_all_failed r - last_all_failed_debug s
      \<longrightarrow> consecutive_all_failed_count (loop_sensor_read r s) =
            (if 5 \<le> consecutive_all_failed_count s + 1 then 0
             else consecutive_all_failed_count s + 1))
   \<and> consecutive_failures (check_serial_communication avail True s) = 0
   \<and> consecutive_failures (check_serial_communication avail False s)
        = consecutive_failures s + 1"
proof -
  have run: "consecutive_failures s = 0
      \<longrightarrow> unat (consecutive_failures (sensing_cycles rs s)) = failure_run rs mod 15"
  proof
    assume z: "consecutive_failures s = 0"
    then have "unat (consecutive_failures s) < 15" by simp
    from consecutive_failures_run [OF this, of rs] z show
      "unat (consecutive_failures (sensing_cycles rs s)) = failure_run rs mod 15"
      by (simp add: failure_run_all_failed)
  qed
  show ?thesis
    using run
    by (simp add: loop_sensor_read_def loop_read_failure_all_failed_count
        loop_read_success_all_failed_count check_serial_communication_def emit_def Let_def)
qed

theorem consecutive_counters_witness:
  "consecutive_failures power_on = 0
   \<and> unat (consecutive_failures (sensing_cycles (quiet_cycles 16 0) power_on))
       = failure_run (quiet_cycles 16 0) mod 15
   \<and> \<not> update_ok (quiet_reading 0)
   \<and> consecutive_all_failed_count (loop_sensor_read (quiet_reading 0) power_on) = 0
   \<and> update_ok (far_reading 20000)
   \<and> consecutive_all_failed_count
        (loop_sensor_read (far_reading 20000) (power_on\<lparr>consecutive_all_failed_count := 2\<rparr>)) = 0
   \<and> update_ok (blank_reading 20000)
   \<and> \<not> 10000 < t_all_failed (blank_reading 20000)
                  - last_all_failed_debug (power_on\<lparr>consecutive_all_failed_count := 2,
                                                  last_all_failed_debug := 20000\<rparr>)
   \<and> consecutive_all_failed_count
        (loop_sensor_read (blank_reading 20000)
           (power_on\<lparr>consecutive_all_failed_count := 2, last_all_failed_debug := 20000\<rparr>)) = 2
   \<and> 10000 < t_all_failed (blank_reading 20000)
                  - last_all_failed_debug (power_on\<lparr>consecutive_all_failed_count := 2\<rparr>)
   \<and> consecutive_all_failed_count
        (loop_sensor_read (blank_reading 20000) (power_on\<lparr>consecutive_all_failed_count := 2\<rparr>)) = 3"
  using consecutive_counters [where s = power_on and rs = "quiet_cycles 16 0"
          and r = "quiet_reading 0"]
        consecutive_counters [where s = "power_on\<lparr>consecutive_all_failed_count := 2\<rparr>"
          and r = "far_reading 20000"]
        consecutive_counters [where s = "power_on\<lparr>consecutive_all_failed_count := 2,
                                                 last_all_failed_debug := 20000\<rparr>"
          and r = "blank_reading 20000"]
        consecutive_counters [where s = "power_on\<lparr>consecutive_all_failed_count := 2\<rparr>"
          and r = "blank_reading 20000"]
  by (simp add: power_on_def far_reading_def blank_reading_def quiet_reading_def read_or_zero_def)

subsection \<open>Escalation thresholds\<close>

lemma loop_all_failed_third:
  assumes "10000 < t_all_failed r - last_all_failed_debug s"
      and "consecutive_all_failed_count s + 1 = 3"
  shows "emitted s (loop_all_failed True r s)
           = [Log Banner_test_serial, Link (SerialSend (Ascii ''TEST''))]"
  using assms
  by (simp add: loop_all_failed_def Let_def recovery_emit_forms emit_def emitted_def)

lemma loop_all_failed_fourth:
  assumes "10000 < t_all_failed r - last_all_failed_debug s"
      and "consecutive_all_failed_count s + 1 = 4"
  shows "emitted s (loop_all_failed True r s)
           = [Log Banner_test_all_resets, Link SerialDrain, Link (SerialSend Frame_reset)]
             @ (if test1 r then []
                else [Link SerialDrain, Link (SerialSend (Ascii ''RESET'')),
                      Link (SerialSend (Ascii ''RST''))]
                     @ (if test2 r then []
                        else [Log Banner_reset_via_serial, Link SerialEnd, Link SerialBegin,
                              Link DriverBegin]))"
  using assms
  by (simp add: loop_all_failed_def Let_def recovery_emit_forms emit_def emitted_def)

lemma loop_all_failed_fifth:
  assumes "10000 < t_all_failed r - last_all_failed_debug s"
      and "5 \<le> consecutive_all_failed_count s + 1"
  shows "emitted s (loop_all_failed True r s)
           = [Log Banner_reset_position, Link SerialDrain]
             @ (if test_after_reset r then []
                else [Log Banner_careful_reinit, Link SerialDrain]
                     @ (if before_test r then []
                        else [Link SerialEnd, Link SerialBegin, Link DriverBegin]))
             @ [Log Banner_verify_post_reset]"
proof -
  from assms(2) have "consecutive_all_failed_count s + 1 \<noteq> 3"
    "consecutive_all_failed_count s + 1 \<noteq> 4"
    by auto
  with assms show ?thesis
    by (simp add: loop_all_failed_def Let_def recovery_emit_forms emit_def emitted_def)
qed

lemma loop_vitals_failed_second:
  assumes "15000 < t_vitals r - last_vitals_failed_debug s"
      and "2 \<le> consecutive_vitals_failed_count s + 1"
  shows "(Log Banner_robust_vitals \<in> set (emitted s (loop_vitals_failed True r s))
            \<longleftrightarrow> \<not> distance s > 1.5)
         \<and> consecutive_vitals_failed_count (loop_vitals_failed True r s) = 0"
  using assms
  by (simp add: loop_vitals_failed_def Let_def get_vital_signs_robust_eq
      simulate_vital_signs_def emit_def emitted_def)

text \<open>
  C5, as stated: the fifth all-data failure would force the highest tier, and the second
  vitals failure a recovery read. Five counted all-data failures from power-on, with a
  sensor that answers the update after the soft reset, end in a buffer flush and the
  verification only; and with a distance of 2 m the second counted vitals failure
  substitutes simulated values without any robust read.
\<close>

theorem fifth_failure_only_flushes:
  "consecutive_all_failed_count (sensing_cycles (blank_cycles 4 20000) power_on) = 4
   \<and> emitted (sensing_cycles (blank_cycles 4 20000) power_on)
        (sensing_cycles (blank_cycles 5 20000) power_on)
      = [Log Banner_reset_position, Link SerialDrain, Log Banner_verify_post_reset,
         Telemetry 0 0 0 0]
   \<and> consecutive_all_failed_count (sensing_cycles (blank_cycles 5 20000) power_on) = 0
   \<and> consecutive_vitals_failed_count (sensing_cycles [far_reading 20000] power_on) = 1
   \<and> emitted (sensing_cycles [far_reading 20000] power_on)
        (sensing_cycles [far_reading 20000, far_reading 40000] power_on)
      = [Log (Simulated_data 16 70), Telemetry 16 70 2 0]"
  by code_simp

text \<open>
  C5, amended. The counts are those of the rate-limited checks (at most one per 15 s for
  the vitals, one per 10 s for all data). At the second counted vitals failure the robust
  read \<^verbatim>\<open>get_vital_signs_robust\<close> is attempted exactly when the distance is at most 1.5, and
  the counter returns to 0. At the third counted all-data failure
  \<^verbatim>\<open>test_serial_communication\<close> runs; at the fourth \<^verbatim>\<open>test_all_reset_methods\<close> (frame reset,
  then the text commands, then the restart of the link, stopping at the first method
  after which the update succeeds); at the fifth the link buffer is flushed, the link is
  restarted by \<^verbatim>\<open>careful_sensor_reinitialization\<close> only if the update after the flush and
  the one at its start both fail, the result is verified, and the counter returns to 0
  whatever the outcome.
\<close>

theorem escalation_thresholds:
  "(15000 < t_vitals r - last_vitals_failed_debug s
      \<and> 2 \<le> consecutive_vitals_failed_count s + 1
      \<longrightarrow> (Log Banner_robust_vitals \<in> set (emitted s (loop_vitals_failed True r s))
             \<longleftrightarrow> \<not> distance s > 1.5)
          \<and> consecutive_vitals_failed_count (loop_vitals_failed True r s) = 0)
   \<and> (10000 < t_all_failed r - last_all_failed_debug s
        \<and> consecutive_all_failed_count s + 1 = 3
      \<longrightarrow> emitted s (loop_all_failed True r s)
            = [Log Banner_test_serial, Link (SerialSend (Ascii ''TEST''))]
          \<and> consecutive_all_failed_count (loop_all_failed True r s) = 3)
   \<and> (10000 < t_all_failed r - last_all_failed_debug s
        \<and> consecutive_all_failed_count s + 1 = 4
      \<longrightarrow> emitted s (loop_all_failed True r s)
            = [Log Banner_test_all_resets, Link SerialDrain, Link (SerialSend Frame_reset)]
              @ (if test1 r then []
                 else [Link SerialDrain, Link (SerialSend (Ascii ''RESET'')),
                       Link (SerialSend (Ascii ''RST''))]
                      @ (if test2 r then []
                         else [Log Banner_reset_via_serial, Link SerialEnd, Link SerialBegin,
                               Link DriverBegin]))
          \<and> consecutive_all_failed_count (loop_all_failed True r s) = 4)
   \<and> (10000 < t_all_failed r - last_all_failed_debug s
        \<and> 5 \<le> consecutive_all_failed_count s + 1
      \<longrightarrow> emitted s (loop_all_failed True r s)
            = [Log Banner_reset_position, Link SerialDrain]
              @ (if test_after_reset r then []
                 else [Log Banner_careful_reinit, Link SerialDrain]
                      @ (if before_test r then []
                         else [Link SerialEnd, Link SerialBegin, Link DriverBegin]))
              @ [Log Banner_verify_post_reset]
          \<and> consecutive_all_failed_count (loop_all_failed True r s) = 0)"
  using loop_vitals_failed_second [of r s] loop_all_failed_third [of r s]
        loop_all_failed_fourth [of r s] loop_all_failed_fifth [of r s]
  by (simp add: loop_all_failed_count)

theorem escalation_thresholds_witness:
  "15000 < t_vitals (far_reading 20000)
             - last_vitals_failed_debug (power_on\<lparr>distance := 2,
                                                  consecutive_vitals_failed_count := 1\<rparr>)
   \<and> Log Banner_robust_vitals
       \<notin> set (emitted (power_on\<lparr>distance := 2, consecutive_vitals_failed_count := 1\<rparr>)
                 (loop_vitals_failed True (far_reading 20000)
                    (power_on\<lparr>distance := 2, consecutive_vitals_failed_count := 1\<rparr>)))
   \<and> Log Banner_robust_vitals
       \<in> set (emitted (power_on\<lparr>consecutive_vitals_failed_count := 1\<rparr>)
                 (loop_vitals_failed True (blank_reading 20000)
                    (power_on\<lparr>consecutive_vitals_failed_count := 1\<rparr>)))
   \<and> 10000 < t_all_failed (quiet_reading 20000) - last_all_failed_debug power_on
   \<and> emitted (power_on\<lparr>consecutive_all_failed_count := 2\<rparr>)
        (loop_all_failed True (quiet_reading 20000)
           (power_on\<lparr>consecutive_all_failed_count := 2\<rparr>))
      = [Log Banner_test_serial, Link (SerialSend (Ascii ''TEST''))]
   \<and> emitted (power_on\<lparr>consecutive_all_failed_count := 3\<rparr>)
        (loop_all_failed True (quiet_reading 20000)
           (power_on\<lparr>consecutive_all_failed_count := 3\<rparr>))
      = [Log Banner_test_all_resets, Link SerialDrain, Link (SerialSend Frame_reset),
         Link SerialDrain, Link (SerialSend (Ascii ''RESET'')),
         Link (SerialSend (Ascii ''RST'')),
         Log Banner_reset_via_serial, Link SerialEnd, Link SerialBegin, Link DriverBegin]
   \<and> emitted (power_on\<lparr>consecutive_all_failed_count := 4\<rparr>)
        (loop_all_failed True (quiet_reading 20000)
           (power_on\<lparr>consecutive_all_failed_count := 4\<rparr>))
      = [Log Banner_reset_position, Link SerialDrain,
         Log Banner_careful_reinit, Link SerialDrain,
         Link SerialEnd, Link SerialBegin, Link DriverBegin,
         Log Banner_verify_post_reset]
   \<and> consecutive_all_failed_count
        (loop_all_failed True (quiet_reading 20000)
           (power_on\<lparr>consecutive_all_failed_count := 4\<rparr>)) = 0"
  using escalation_thresholds [where r = "far_reading 20000"
          and s = "power_on\<lparr>distance := 2, consecutive_vitals_failed_count := 1\<rparr>"]
        escalation_thresholds [where r = "blank_reading 20000"
          and s = "power_on\<lparr>consecutive_vitals_failed_count := 1\<rparr>"]
        escalation_thresholds [where r = "quiet_reading 20000"
          and s = "power_on\<lparr>consecutive_all_failed_count := 2\<rparr>"]
        escalation_thresholds [where r = "quiet_reading 20000"
          and s = "power_on\<lparr>consecutive_all_failed_count := 3\<rparr>"]
        escalation_thresholds [where r = "quiet_reading 20000"
          and s = "power_on\<lparr>consecutive_all_failed_count := 4\<rparr>"]
  by (simp add: power_on_def far_reading_def blank_reading_def quiet_reading_def)

subsection \<open>Simulated vital signs\<close>

lemma simulate_vital_signs_result:
  assumes "sim_in_range s"
  shows "sim_in_range (simulate_vital_signs i s)"
    and "breath_rate (simulate_vital_signs i s) = sim_breath (simulate_vital_signs i s)"
    and "heart_rate (simulate_vital_signs i s) = sim_heart (simulate_vital_signs i s)"
    and "trace (simulate_vital_signs i s) =
           trace s @ [Log (Simulated_data (sim_breath (simulate_vital_signs i s))
                                          (sim_heart (simulate_vital_signs i s)))]"
  using assms
  by (simp_all add: simulate_vital_signs_def sim_in_range_def emit_def Let_def)

lemma loop_vitals_failed_simulated:
  assumes rate: "15000 < t_vitals r - last_vitals_failed_debug s"
      and cnt: "2 \<le> consecutive_vitals_failed_count s + 1"
      and trig: "1.5 < distance s
                 \<or> \<not> fst (robust_attempts (robust_driver r) 5 1 (breath_rate s) (heart_rate s))"
      and inv: "sim_in_range s"
  shows "sim_in_range (loop_vitals_failed True r s)
         \<and> breath_rate (loop_vitals_failed True r s) = sim_breath (loop_vitals_failed True r s)
         \<and> heart_rate (loop_vitals_failed True r s) = sim_heart (loop_vitals_failed True r s)
         \<and> Log (Simulated_data (sim_breath (loop_vitals_failed True r s))
                                (sim_heart (loop_vitals_failed True r s)))
             \<in> set (emitted s (loop_vitals_failed True r s))"
proof -
  let ?s1 = "s\<lparr>consecutive_vitals_failed_count := consecutive_vitals_failed_count s + 1,
               last_vitals_failed_debug := t_vitals_mark r\<rparr>"
  let ?s3 = "snd (get_vital_signs_robust (robust_driver r) ?s1)"
  let ?base = "if 1.5 < distance s then ?s1 else ?s3"
  have inv_base: "sim_in_range ?base"
    using inv by (simp add: sim_in_range_def get_vital_signs_robust_eq)
  have tr_base: "\<exists>es. trace ?base = trace s @ es"
    by (simp add: get_vital_signs_robust_eq)
  have eq: "loop_vitals_failed True r s =
              (simulate_vital_signs (sim r) ?base)\<lparr>consecutive_vitals_failed_count := 0\<rparr>"
    using rate cnt trig
    by (auto simp: loop_vitals_failed_def Let_def get_vital_signs_robust_eq)
  from tr_base obtain es where es: "trace ?base = trace s @ es" by blast
  note sim = simulate_vital_signs_result [OF inv_base, of "sim r"]
  have "sim_in_range (loop_vitals_failed True r s)"
    using sim(1) by (simp add: eq sim_in_range_def)
  moreover have "breath_rate (loop_vitals_failed True r s) = sim_breath (loop_vitals_failed True r s)"
    using sim(2) by (simp add: eq)
  moreover have "heart_rate (loop_vitals_failed True r s) = sim_heart (loop_vitals_failed True r s)"
    using sim(3) by (simp add: eq)
  moreover have "Log (Simulated_data (sim_breath (loop_vitals_failed True r s))
                                (sim_heart (loop_vitals_failed True r s)))
             \<in> set (emitted s (loop_vitals_failed True r s))"
    using sim(4) es by (simp add: eq emitted_def)
  ultimately show ?thesis by blast
qed


lemma loop_all_failed_vitals [simp]:
  "breath_rate (loop_all_failed a r s) = breath_rate s"
  "heart_rate (loop_all_failed a r s) = heart_rate s"
  "sim_breath (loop_all_failed a r s) = sim_breath s"
  "sim_heart (loop_all_failed a r s) = sim_heart s"
  "distance (loop_all_failed a r s) = distance s"
  "last_fallback_update (loop_all_failed a r s) = last_fallback_update s"
  "fallback_angle (loop_all_failed a r s) = fallback_angle s"
  by (simp_all add: loop_all_failed_def Let_def recovery_emit_forms emit_def)

lemma loop_all_failed_trace:
  "trace (loop_all_failed a r s) = trace s @ emitted s (loop_all_failed a r s)"
  by (simp add: loop_all_failed_def Let_def recovery_emit_forms emit_def emitted_def)

lemma loop_vitals_failed_position_inputs [simp]:
  "distance (loop_vitals_failed v r s) = distance s"
  "last_fallback_update (loop_vitals_failed v r s) = last_fallback_update s"
  "fallback_angle (loop_vitals_failed v r s) = fallback_angle s"
  by (simp_all add: loop_vitals_failed_def Let_def simulate_vital_signs_def emit_def
      get_vital_signs_robust_eq)

lemma loop_position_vitals [simp]:
  "breath_rate (loop_position r s) = breath_rate s"
  "heart_rate (loop_position r s) = heart_rate s"
  "sim_breath (loop_position r s) = sim_breath s"
  "sim_heart (loop_position r s) = sim_heart s"
  by (simp_all add: loop_position_def Let_def recovery_emit_forms emit_def
      split: option.splits list.splits)

lemma loop_position_trace:
  "trace (loop_position r s) = trace s @ emitted s (loop_position r s)"
  by (simp add: loop_position_def Let_def recovery_emit_forms emit_def emitted_def
      split: option.splits list.splits)

lemma loop_fallback_vitals [simp]:
  "breath_rate (loop_fallback r s) = breath_rate s"
  "heart_rate (loop_fallback r s) = heart_rate s"
  "sim_breath (loop_fallback r s) = sim_breath s"
  "sim_heart (loop_fallback r s) = sim_heart s"
  "trace (loop_fallback r s) = trace s"
  by (simp_all add: loop_fallback_def Let_def)

lemma position_fallback_cong:
  assumes "position_read r' = position_read r" "t_fallback r' = t_fallback r"
      and "libm_cos r' = libm_cos r" "libm_sin r' = libm_sin r"
      and "distance B = distance A" "last_fallback_update B = last_fallback_update A"
      and "fallback_angle B = fallback_angle A"
  shows "x_position (loop_fallback r' (loop_position r' B))
           = x_position (loop_fallback r (loop_position r A))
         \<and> y_position (loop_fallback r' (loop_position r' B))
           = y_position (loop_fallback r (loop_position r A))"
  using assms
  by (auto simp: loop_fallback_def loop_position_def Let_def recovery_emit_forms emit_def
      split: option.splits list.splits)


lemma loop_position_fallback_trace:
  "\<exists>es. trace (loop_fallback r (loop_position r s)) = trace s @ es"
  using loop_position_trace [of r s] by (intro exI) simp

lemma sim_in_range_power_on: "sim_in_range power_on"
  by (simp add: sim_in_range_def power_on_def)

lemma sim_in_range_wake: "sim_in_range (wake_from_deep_sleep s)"
  by (simp add: sim_in_range_def wake_from_deep_sleep_def power_on_def)

lemma loop_vitals_failed_sim_in_range:
  assumes "sim_in_range s"
  shows "sim_in_range (loop_vitals_failed v r s)"
  using assms
  by (simp add: loop_vitals_failed_def Let_def simulate_vital_signs_def emit_def
      get_vital_signs_robust_eq sim_in_range_def)

lemma safe_reset_sensor_sim [simp]:
  "sim_breath (safe_reset_sensor now tm s) = sim_breath s"
  "sim_heart (safe_reset_sensor now tm s) = sim_heart s"
  by (cases "fst (is_reset_safe now s)";
      simp add: safe_reset_sensor_authorized safe_reset_sensor_denied
        reset_sensor_via_serial_def emit_def)+

lemma loop_sensor_read_sim_in_range:
  assumes "sim_in_range s"
  shows "sim_in_range (loop_sensor_read r s)"
proof (cases "update_ok r")
  case True
  have "sim_in_range (loop_vitals_failed v r (s\<lparr>successful_readings := a, consecutive_failures := b,
          last_data_received := c, breath_rate := d, heart_rate := e, distance := f,
          x_position := g, y_position := h\<rparr>))" for v a b c d e f g h
    by (rule loop_vitals_failed_sim_in_range) (use assms in \<open>simp add: sim_in_range_def\<close>)
  then show ?thesis
    using True
    by (simp add: loop_sensor_read_def loop_read_success_def Let_def send_formatted_data_def
        emit_def sim_in_range_def)
next
  case False
  then show ?thesis
    using assms
    by (simp add: loop_sensor_read_def loop_read_failure_def Let_def recovery_emit_forms
        emit_def sim_in_range_def)
qed

lemma sensing_cycles_sim_in_range:
  "sim_in_range s \<Longrightarrow> sim_in_range (sensing_cycles rs s)"
  by (induction rs arbitrary: s) (simp_all add: loop_sensor_read_sim_in_range)

text \<open>
  C10. In a cycle with a successful update in which both vital signs read 0, the
  rate-limited check is counted for at least the second time, and the distance is above
  1.5 or the robust read fails, the globals \<^verbatim>\<open>breath_rate\<close> and \<^verbatim>\<open>heart_rate\<close> hold simulated
  values \<open>b\<close> in [12, 25] and \<open>h\<close> in [60, 100] at the end of the cycle, and these are
  what \<^verbatim>\<open>send_formatted_data\<close> prints: the record has the four fields breath rate, heart
  rate, x and y and nothing else, so it is the very record of a cycle in which the driver
  itself reported \<open>b\<close> and \<open>h\<close>. Only the debug log says "DADOS SIMULADOS".
  \<open>sim_in_range\<close> speaks of the two statics of \<^verbatim>\<open>simulate_vital_signs\<close>, which no other
  function can write: it holds at power-on, after a wake-up and after every sensing cycle.
\<close>

theorem simulated_vitals_reach_telemetry:
  assumes upd: "update_ok r"
      and br: "read_or_zero (breath_read r) = 0"
      and hr: "read_or_zero (heart_read r) = 0"
      and rate: "15000 < t_vitals r - last_vitals_failed_debug s"
      and cnt: "2 \<le> consecutive_vitals_failed_count s + 1"
      and trig: "1.5 < read_or_zero (distance_read r)
                 \<or> \<not> fst (robust_attempts (robust_driver r) 5 1 0 0)"
      and inv: "sim_in_range s"
  shows "\<exists>b h. 12 \<le> b \<and> b \<le> 25 \<and> 60 \<le> h \<and> h \<le> 100
           \<and> breath_rate (loop_sensor_read r s) = b
           \<and> heart_rate (loop_sensor_read r s) = h
           \<and> Log (Simulated_data b h) \<in> set (emitted s (loop_sensor_read r s))
           \<and> last (trace (loop_sensor_read r s))
               = Telemetry b h (x_position (loop_sensor_read r s))
                               (y_position (loop_sensor_read r s))
           \<and> last (trace (loop_sensor_read (r\<lparr>breath_read := Some b, heart_read := Some h\<rparr>) s))
               = last (trace (loop_sensor_read r s))
           \<and> sim_in_range (loop_sensor_read r s)"
proof -
  define s2 where "s2 =
    s\<lparr>successful_readings := successful_readings s + 1,
      consecutive_failures := 0,
      last_data_received := t_data r,
      breath_rate := 0, heart_rate := 0,
      distance := read_or_zero (distance_read r),
      x_position := 0, y_position := 0\<rparr>"
  define s3 where "s3 = loop_vitals_failed True r s2"
  define s4 where "s4 = loop_all_failed (read_or_zero (distance_read r) = 0) r s3"
  define s6 where "s6 = loop_fallback r (loop_position r s4)"
  define b where "b = sim_breath s3"
  define h where "h = sim_heart s3"
  have run: "loop_sensor_read r s =
               send_formatted_data (breath_rate s6) (heart_rate s6) (x_position s6)
                 (y_position s6) s6"
    using upd br hr
    by (simp add: loop_sensor_read_def loop_read_success_def Let_def s2_def s3_def s4_def s6_def)
  have vit: "sim_in_range s3 \<and> breath_rate s3 = b \<and> heart_rate s3 = h
             \<and> Log (Simulated_data b h) \<in> set (emitted s2 s3)"
    unfolding s3_def b_def h_def
    using loop_vitals_failed_simulated [of r s2] rate cnt trig inv
    by (simp add: s2_def sim_in_range_def)
  have range: "12 \<le> b \<and> b \<le> 25 \<and> 60 \<le> h \<and> h \<le> 100"
    using vit by (simp add: sim_in_range_def b_def h_def)
  have b6: "breath_rate s6 = b" and h6: "heart_rate s6 = h"
    and sb6: "sim_breath s6 = b" and sh6: "sim_heart s6 = h"
    using vit by (simp_all add: s6_def s4_def b_def h_def)
  have tr2: "trace s2 = trace s" by (simp add: s2_def)
  obtain e3 where e3: "trace s3 = trace s @ e3" and in3: "Log (Simulated_data b h) \<in> set e3"
  proof -
    have "\<exists>es. trace s3 = trace s2 @ es"
      unfolding s3_def
      by (simp add: loop_vitals_failed_def Let_def simulate_vital_signs_def emit_def
          get_vital_signs_robust_eq)
    then obtain es where "trace s3 = trace s2 @ es" by blast
    with vit tr2 that show thesis by (simp add: emitted_def)
  qed
  obtain e6 where e6: "trace s6 = trace s3 @ e6"
  proof -
    from loop_position_fallback_trace [of r s4]
    obtain es where "trace s6 = trace s4 @ es" unfolding s6_def by blast
    with loop_all_failed_trace [of "read_or_zero (distance_read r) = 0" r s3] that
    show thesis by (simp add: s4_def)
  qed
  have tr: "trace (loop_sensor_read r s) =
              trace s @ e3 @ e6 @ [Telemetry b h (x_position s6) (y_position s6)]"
    by (simp add: run send_formatted_data_def emit_def e6 e3 b6 h6)
  have fields: "breath_rate (loop_sensor_read r s) = b" "heart_rate (loop_sensor_read r s) = h"
    "x_position (loop_sensor_read r s) = x_position s6"
    "y_position (loop_sensor_read r s) = y_position s6"
    "sim_breath (loop_sensor_read r s) = b" "sim_heart (loop_sensor_read r s) = h"
    by (simp_all add: run send_formatted_data_def emit_def b6 h6 sb6 sh6)
  \<comment> \<open>the cycle in which the driver itself reports \<open>b\<close> and \<open>h\<close>\<close>
  define r' where "r' = r\<lparr>breath_read := Some b, heart_read := Some h\<rparr>"
  define s4' where "s4' =
    s\<lparr>successful_readings := successful_readings s + 1,
      consecutive_failures := 0,
      last_data_received := t_data r,
      breath_rate := b, heart_rate := h,
      distance := read_or_zero (distance_read r),
      x_position := 0, y_position := 0,
      consecutive_vitals_failed_count := 0,
      consecutive_all_failed_count := 0\<rparr>"
  define s6' where "s6' = loop_fallback r' (loop_position r' s4')"
  have bpos: "b \<noteq> 0" using range by simp
  have run': "loop_sensor_read r' s =
               send_formatted_data (breath_rate s6') (heart_rate s6') (x_position s6')
                 (y_position s6') s6'"
    using upd bpos
    by (simp add: loop_sensor_read_def loop_read_success_def Let_def r'_def s4'_def s6'_def
        read_or_zero_def loop_vitals_failed_def loop_all_failed_def)
  have xy: "x_position s6' = x_position s6 \<and> y_position s6' = y_position s6"
    unfolding s6'_def s6_def
    by (rule position_fallback_cong)
       (simp_all add: r'_def s4'_def s4_def s3_def s2_def)
  have tw: "last (trace (loop_sensor_read r' s)) = Telemetry b h (x_position s6) (y_position s6)"
    using xy
    by (simp add: run' send_formatted_data_def emit_def s6'_def s4'_def)
  show ?thesis
    using range in3 tw
    by (intro exI [of _ b] exI [of _ h])
       (simp add: fields tr emitted_def sim_in_range_def r'_def)
qed

theorem simulated_vitals_reach_telemetry_witness:
  "update_ok (far_reading 20000)
   \<and> read_or_zero (breath_read (far_reading 20000)) = 0
   \<and> read_or_zero (heart_read (far_reading 20000)) = 0
   \<and> 15000 < t_vitals (far_reading 20000)
               - last_vitals_failed_debug (power_on\<lparr>consecutive_vitals_failed_count := 1\<rparr>)
   \<and> 2 \<le> consecutive_vitals_failed_count (power_on\<lparr>consecutive_vitals_failed_count := 1\<rparr>) + 1
   \<and> 1.5 < read_or_zero (distance_read (far_reading 20000))
   \<and> sim_in_range (power_on\<lparr>consecutive_vitals_failed_count := 1\<rparr>)
   \<and> (\<exists>b h. 12 \<le> b \<and> b \<le> 25 \<and> 60 \<le> h \<and> h \<le> 100
         \<and> breath_rate (loop_sensor_read (far_reading 20000)
               (power_on\<lparr>consecutive_vitals_failed_count := 1\<rparr>)) = b
         \<and> heart_rate (loop_sensor_read (far_reading 20000)
               (power_on\<lparr>consecutive_vitals_failed_count := 1\<rparr>)) = h
         \<and> last (trace (loop_sensor_read (far_reading 20000)
               (power_on\<lparr>consecutive_vitals_failed_count := 1\<rparr>)))
             = Telemetry b h
                 (x_position (loop_sensor_read (far_reading 20000)
                    (power_on\<lparr>consecutive_vitals_failed_count := 1\<rparr>)))
                 (y_position (loop_sensor_read (far_reading 20000)
                    (power_on\<lparr>consecutive_vitals_failed_count := 1\<rparr>))))"
proof -
  let ?r = "far_reading 20000"
  let ?s = "power_on\<lparr>consecutive_vitals_failed_count := 1\<rparr>"
  have h1: "update_ok ?r"
    and h2: "read_or_zero (breath_read ?r) = 0"
    and h3: "read_or_zero (heart_read ?r) = 0"
    and h4: "15000 < t_vitals ?r - last_vitals_failed_debug ?s"
    and h5: "2 \<le> consecutive_vitals_failed_count ?s + 1"
    and h6: "1.5 < read_or_zero (distance_read ?r)"
    and h7: "sim_in_range ?s"
    by (simp_all add: far_reading_def blank_reading_def quiet_reading_def read_or_zero_def
        power_on_def sim_in_range_def)
  from h6 have h6': "1.5 < read_or_zero (distance_read ?r)
                     \<or> \<not> fst (robust_attempts (robust_driver ?r) 5 1 0 0)" ..
  from simulated_vitals_reach_telemetry [OF h1 h2 h3 h4 h5 h6' h7]
  obtain b h where "12 \<le> b \<and> b \<le> 25 \<and> 60 \<le> h \<and> h \<le> 100
         \<and> breath_rate (loop_sensor_read ?r ?s) = b
         \<and> heart_rate (loop_sensor_read ?r ?s) = h
         \<and> last (trace (loop_sensor_read ?r ?s))
             = Telemetry b h (x_position (loop_sensor_read ?r ?s))
                             (y_position (loop_sensor_read ?r ?s))"
    by blast
  then have "\<exists>b h. 12 \<le> b \<and> b \<le> 25 \<and> 60 \<le> h \<and> h \<le> 100
         \<and> breath_rate (loop_sensor_read ?r ?s) = b
         \<and> heart_rate (loop_sensor_read ?r ?s) = h
         \<and> last (trace (loop_sensor_read ?r ?s))
             = Telemetry b h (x_position (loop_sensor_read ?r ?s))
                             (y_position (loop_sensor_read ?r ?s))"
    by blast
  with h1 h2 h3 h4 h5 h6 h7 show ?thesis by blast
qed

end
